theory Spec2Isabelle
  imports Main
begin

section \<open>Enumerations of src/types\<close>

text \<open>
  The members are the ones \<^verbatim>\<open>serviceRequests.service.ts\<close> names. The seven service-request
  statuses are the keys of the \<^verbatim>\<open>validTransitions\<close> record (lines 430-438).
\<close>

datatype ServiceRequestStatus =
  CREATED | ASSIGNED | SCHEDULED | IN_PROGRESS | PAYMENT_PENDING | COMPLETED | CANCELLED

datatype InstallationRequestStatus =
  SUBMITTED | FRANCHISE_CONTACTED | INSTALLATION_SCHEDULED | INSTALLATION_IN_PROGRESS
  | IR_PAYMENT_PENDING | INSTALLATION_COMPLETED | IR_CANCELLED

datatype PaymentStatus = PAY_PENDING | PAY_COMPLETED | PAY_FAILED | PAY_REFUNDED

datatype UserRole = ADMIN | FRANCHISE_OWNER | SERVICE_AGENT | CUSTOMER

datatype ActionType =
  SERVICE_REQUEST_CREATED | SERVICE_REQUEST_ASSIGNED | SERVICE_REQUEST_SCHEDULED
  | SERVICE_REQUEST_IN_PROGRESS | SERVICE_REQUEST_COMPLETED | SERVICE_REQUEST_CANCELLED
  | INSTALLATION_REQUEST_SCHEDULED | INSTALLATION_REQUEST_IN_PROGRESS
  | INSTALLATION_REQUEST_COMPLETED | INSTALLATION_REQUEST_CANCELLED | PAYMENT_COMPLETED

text \<open>
  Modelled from the spec: the string value of each status. The enum declarations are in
  \<^verbatim>\<open>src/types\<close>, which is not among the sources; the values are the upper-case member
  names, as spec 4.1 and 4.2 write them and as the literals show that the other services
  compare the stored columns with (\<^verbatim>\<open>'PAYMENT_PENDING'\<close> at line 147, \<^verbatim>\<open>'COMPLETED'\<close>,
  \<^verbatim>\<open>'CANCELLED'\<close>, \<^verbatim>\<open>'INSTALLATION_COMPLETED'\<close>, \<^verbatim>\<open>'SUBMITTED'\<close> in \<^verbatim>\<open>user.service.ts\<close> and
  \<^verbatim>\<open>products.service.ts\<close>).
\<close>

fun srStatusValue :: "ServiceRequestStatus \<Rightarrow> string" where
  "srStatusValue CREATED = ''CREATED''"
| "srStatusValue ASSIGNED = ''ASSIGNED''"
| "srStatusValue SCHEDULED = ''SCHEDULED''"
| "srStatusValue IN_PROGRESS = ''IN_PROGRESS''"
| "srStatusValue PAYMENT_PENDING = ''PAYMENT_PENDING''"
| "srStatusValue COMPLETED = ''COMPLETED''"
| "srStatusValue CANCELLED = ''CANCELLED''"

fun irStatusValue :: "InstallationRequestStatus \<Rightarrow> string" where
  "irStatusValue SUBMITTED = ''SUBMITTED''"
| "irStatusValue FRANCHISE_CONTACTED = ''FRANCHISE_CONTACTED''"
| "irStatusValue INSTALLATION_SCHEDULED = ''INSTALLATION_SCHEDULED''"
| "irStatusValue INSTALLATION_IN_PROGRESS = ''INSTALLATION_IN_PROGRESS''"
| "irStatusValue IR_PAYMENT_PENDING = ''PAYMENT_PENDING''"
| "irStatusValue INSTALLATION_COMPLETED = ''INSTALLATION_COMPLETED''"
| "irStatusValue IR_CANCELLED = ''CANCELLED''"

text \<open>
  The value of \<^verbatim>\<open>ServiceRequestType.INSTALLATION\<close> (declared in \<^verbatim>\<open>src/types\<close>), taken to be
  the literal that lines 139 and 469 compare the type of a request with. The service uses
  it only to store the type of an installation request and to look such a request up.
\<close>

definition ServiceRequestType_INSTALLATION :: string where
  "ServiceRequestType_INSTALLATION = ''installation''"

section \<open>JavaScript values\<close>

text \<open>A nullable string is truthy when it is neither null/undefined nor empty.\<close>

fun truthy :: "string option \<Rightarrow> bool" where
  "truthy None = False"
| "truthy (Some s) = (s \<noteq> [])"

text \<open>\<^verbatim>\<open>a || b\<close> on nullable strings.\<close>

definition js_or :: "string option \<Rightarrow> string option \<Rightarrow> string option" where
  "js_or a b = (if truthy a then a else b)"

text \<open>\<^verbatim>\<open>data?.xs && data.xs.length > 0\<close> on an optional array.\<close>

fun hasImages :: "string list option \<Rightarrow> bool" where
  "hasImages None = False"
| "hasImages (Some xs) = (xs \<noteq> [])"

text \<open>
  A property of a JavaScript object that may hold a string, \<^verbatim>\<open>null\<close> or \<^verbatim>\<open>undefined\<close>, where
  the two are told apart; it is truthy when it is a non-empty string.
\<close>

datatype jstext = Undefined | Null | Text string

fun truthyText :: "jstext \<Rightarrow> bool" where
  "truthyText (Text s) = (s \<noteq> [])"
| "truthyText Undefined = False"
| "truthyText Null = False"

text \<open>\<^verbatim>\<open>a || b\<close> on such properties.\<close>

definition textOr :: "jstext \<Rightarrow> jstext \<Rightarrow> jstext" where
  "textOr a b = (if truthyText a then a else b)"

text \<open>A property interpolated into a template literal.\<close>

fun interpolate :: "jstext \<Rightarrow> string" where
  "interpolate Undefined = ''undefined''"
| "interpolate Null = ''null''"
| "interpolate (Text s) = s"

text \<open>A nullable column read as such a property.\<close>

fun textOfColumn :: "string option \<Rightarrow> jstext" where
  "textOfColumn None = Null"
| "textOfColumn (Some s) = Text s"

definition isUpper :: "char \<Rightarrow> bool" where
  "isUpper c = (c \<in> set ''ABCDEFGHIJKLMNOPQRSTUVWXYZ'')"

fun lowerChar :: "char \<Rightarrow> char" where
  "lowerChar (Char b0 b1 b2 b3 b4 b5 b6 b7) =
     (if isUpper (Char b0 b1 b2 b3 b4 b5 b6 b7) then Char b0 b1 b2 b3 b4 True b6 b7
      else Char b0 b1 b2 b3 b4 b5 b6 b7)"

definition toLowerCase :: "string \<Rightarrow> string" where
  "toLowerCase s = map lowerChar s"

text \<open>\<^verbatim>\<open>xs.join(', ')\<close>.\<close>

fun join_comma :: "string list \<Rightarrow> string" where
  "join_comma [] = []"
| "join_comma [x] = x"
| "join_comma (x # y # ys) = x @ '', '' @ join_comma (y # ys)"

text \<open>Free-form values of the \<^verbatim>\<open>details\<close> and \<^verbatim>\<open>metadata\<close> objects of an audit entry.\<close>

datatype jsval = JStr string | JNum nat | JBool bool | JNull | JUndefined

text \<open>
  An amount: a whole number of the gateway (\<open>Whole\<close>), or such a number divided by 100 as
  \<^verbatim>\<open>amount / 100\<close> does (\<open>Over100\<close>); the quotient is kept symbolic.
\<close>

datatype number = Whole nat | Over100 number

fun jsOfString :: "string option \<Rightarrow> jsval" where
  "jsOfString None = JUndefined"
| "jsOfString (Some s) = JStr s"

section \<open>Errors\<close>

text \<open>
  \<^verbatim>\<open>notFound\<close>, \<^verbatim>\<open>badRequest\<close> and \<^verbatim>\<open>forbidden\<close> of \<^verbatim>\<open>utils/errors\<close> carry their message;
  \<open>Thrown\<close> is any other exception (a \<^verbatim>\<open>TypeError\<close>, a failure of the store or of the
  payment gateway).
\<close>

datatype error = NotFound string | BadRequest string | Forbidden string | Thrown string


text \<open>The call returned a value: nothing was thrown.\<close>

fun returned :: "error + 'a \<Rightarrow> bool" where
  "returned (Inr v) = True"
| "returned (Inl e) = False"

section \<open>Rows of the store\<close>

text \<open>
  The table declarations (\<^verbatim>\<open>models/schema\<close>) are not among the sources. A row carries the
  properties the service reads and writes. Image columns hold the JSON text of an array of
  URLs; the model keeps the array that \<^verbatim>\<open>JSON.stringify\<close> serialises, \<open>None\<close> being null.
  The payment flag of a service request is the property the service reads,
  \<^verbatim>\<open>requirePayment\<close> (lines 475, 491, 495; column \<^verbatim>\<open>require_payment\<close> in
  \<^verbatim>\<open>products.service.ts\<close> line 232).
\<close>

record ServiceRequest =
  sr_id :: string
  sr_subscriptionId :: "string option"
  sr_customerId :: string
  sr_productId :: string
  sr_installationRequestId :: "string option"
  sr_type :: string
  sr_description :: string
  sr_images :: "string list option"
  sr_status :: ServiceRequestStatus
  sr_assignedToId :: "string option"
  sr_franchiseId :: string
  sr_scheduledDate :: "string option"
  sr_completedDate :: "string option"
  sr_completedAt :: "string option"
  sr_beforeImages :: "string list option"
  sr_afterImages :: "string list option"
  sr_requirePayment :: bool
  sr_razorpaySubscriptionId :: "string option"
  sr_createdAt :: string
  sr_updatedAt :: string

record Product =
  prod_id :: string
  prod_name :: string
  prod_images :: "string list option"
  prod_rentPrice :: nat
  prod_deposit :: nat
  prod_buyPrice :: nat

record InstallationRequest =
  ir_id :: string
  ir_customerId :: string
  ir_productId :: string
  ir_franchiseId :: string
  ir_orderType :: string
  ir_status :: InstallationRequestStatus
  ir_assignedTechnicianId :: "string option"
  ir_connectId :: "string option"
  ir_razorpaySubscriptionId :: "string option"
  ir_razorpayPaymentLink :: "string option"
  ir_completedDate :: "string option"
  ir_updatedAt :: string

record Payment =
  pay_id :: string
  pay_installationRequestId :: "string option"
  pay_subscriptionId :: "string option"
  pay_amount :: number
  pay_status :: PaymentStatus
  pay_paymentMethod :: string
  pay_razorpayPaymentId :: "string option"
  pay_razorpaySubscriptionId :: "string option"
  pay_paidDate :: "string option"
  pay_updatedAt :: string

record Subscription =
  sub_id :: string
  sub_connectId :: string
  sub_requestId :: string
  sub_customerId :: string
  sub_productId :: string
  sub_franchiseId :: string
  sub_planName :: string
  sub_status :: string
  sub_startDate :: string
  sub_currentPeriodStartDate :: string
  sub_currentPeriodEndDate :: "string option"
  sub_nextPaymentDate :: "string option"
  sub_monthlyAmount :: nat
  sub_depositAmount :: nat
  sub_razorpaySubscriptionId :: "string option"

record User =
  user_id :: string
  user_role :: UserRole
  user_name :: "string option"
  user_phone :: "string option"

record Franchise =
  fr_id :: string
  fr_ownerId :: "string option"

text \<open>The status an audit entry records: the caller passes a member of any of the enums.\<close>

datatype anyStatus =
  OfServiceRequest ServiceRequestStatus
  | OfInstallationRequest InstallationRequestStatus
  | OfPayment PaymentStatus

text \<open>An action type is a member of \<^verbatim>\<open>ActionType\<close> or a template string.\<close>

datatype action = Member ActionType | Template string

text \<open>The object a caller hands to \<^verbatim>\<open>logActionHistory\<close>; an absent key is \<open>None\<close>.\<close>

record ActionHistoryEntry =
  ah_entityType :: "string option"
  ah_entityId :: "string option"
  ah_serviceRequestId :: "string option"
  ah_installationRequestId :: "string option"
  ah_paymentId :: "string option"
  ah_actionType :: action
  ah_fromStatus :: "anyStatus option"
  ah_toStatus :: "anyStatus option"
  ah_performedBy :: string
  ah_performedByRole :: UserRole
  ah_comment :: "string option"
  ah_metadata :: "(string \<times> jsval) list"
  ah_details :: "(string \<times> jsval) list"

record database =
  serviceRequests :: "ServiceRequest list"
  installationRequests :: "InstallationRequest list"
  payments :: "Payment list"
  subscriptions :: "Subscription list"
  products :: "Product list"
  users :: "User list"
  franchises :: "Franchise list"
  actionHistory :: "ActionHistoryEntry list"

text \<open>The authenticated caller (\<^verbatim>\<open>request.user\<close>).\<close>

record actor =
  userId :: string
  role :: UserRole
  name :: jstext
  phone :: jstext

section \<open>Reads\<close>

text \<open>The first query of \<^verbatim>\<open>getServiceRequestById\<close> (lines 94-103): the first row with the id.\<close>

definition findServiceRequest :: "database \<Rightarrow> string \<Rightarrow> ServiceRequest option" where
  "findServiceRequest db i = find (\<lambda>r. sr_id r = i) (serviceRequests db)"

text \<open>
  Modelled from the spec: \<^verbatim>\<open>parseJsonSafe\<close> of \<^verbatim>\<open>utils/helpers\<close> is not among the sources.
  Spec 6: a missing or invalid JSON text gives the empty sequence, never an error. The
  column is kept as the array it serialises, so only null is missing.
\<close>

fun parseJsonSafe :: "string list option \<Rightarrow> string list" where
  "parseJsonSafe None = []"
| "parseJsonSafe (Some xs) = xs"

text \<open>\<^verbatim>\<open>installationPayment?.status || 'PENDING'\<close>: the stored status or the literal.\<close>

datatype shownStatus = StoredStatus PaymentStatus | LiteralPENDING

record PaymentStatusView =
  ps_status :: shownStatus
  ps_amount :: nat
  ps_method :: string
  ps_paidDate :: jstext
  ps_razorpayPaymentLink :: "string option"
  ps_razorpaySubscriptionId :: "string option"

text \<open>
  The \<^verbatim>\<open>paymentStatus\<close> of lines 107-161. It is computed for a request of type
  \<^verbatim>\<open>'installation'\<close> with an installation request in status \<^verbatim>\<open>'PAYMENT_PENDING'\<close>; the
  amount is read from \<^verbatim>\<open>installationRequest.product\<close>, which throws a \<^verbatim>\<open>TypeError\<close> when
  the installation request has no product row.
\<close>

definition paymentStatusOf :: "database \<Rightarrow> ServiceRequest \<Rightarrow> error + PaymentStatusView option" where
  "paymentStatusOf db result =
     (if sr_type result = ''installation'' \<and> truthy (sr_installationRequestId result)
      then (case find (\<lambda>r. Some (ir_id r) = sr_installationRequestId result)
                   (installationRequests db) of
              None \<Rightarrow> Inr None
            | Some installationRequest \<Rightarrow>
                if irStatusValue (ir_status installationRequest) = ''PAYMENT_PENDING''
                then (let installationPayment =
                            find (\<lambda>p. pay_installationRequestId p =
                                       sr_installationRequestId result) (payments db) in
                      case find (\<lambda>p. prod_id p = ir_productId installationRequest)
                             (products db) of
                        None \<Rightarrow> Inl (Thrown ''TypeError'')
                      | Some product \<Rightarrow>
                          Inr (Some
                            \<lparr>ps_status = (case installationPayment of
                                            None \<Rightarrow> LiteralPENDING
                                          | Some p \<Rightarrow> StoredStatus (pay_status p)),
                             ps_amount = (if ir_orderType installationRequest = ''RENTAL''
                                          then prod_deposit product else prod_buyPrice product),
                             ps_method = (case installationPayment of
                                            None \<Rightarrow> ''Auto_Pay''
                                          | Some p \<Rightarrow> if pay_paymentMethod p = [] then ''Auto_Pay''
                                                      else pay_paymentMethod p),
                             ps_paidDate = (case installationPayment of
                                              None \<Rightarrow> Undefined
                                            | Some p \<Rightarrow> textOfColumn (pay_paidDate p)),
                             ps_razorpayPaymentLink = ir_razorpayPaymentLink installationRequest,
                             ps_razorpaySubscriptionId =
                               ir_razorpaySubscriptionId installationRequest\<rparr>))
                else Inr None)
      else Inr None)"

text \<open>
  The representation \<^verbatim>\<open>getServiceRequestById\<close> returns (lines 164-174): the row, the rows
  joined to it, the parsed image columns and the payment status.
\<close>

record ServiceRequestView =
  v_row :: ServiceRequest
  v_customer :: "User option"
  v_product :: "Product option"
  v_assignedAgent :: "User option"
  v_subscription :: "Subscription option"
  v_installationRequest :: "InstallationRequest option"
  v_images :: "string list"
  v_beforeImages :: "string list"
  v_afterImages :: "string list"
  v_paymentStatus :: "PaymentStatusView option"

definition viewOf :: "database \<Rightarrow> ServiceRequest \<Rightarrow> PaymentStatusView option \<Rightarrow> ServiceRequestView" where
  "viewOf db result paymentStatus =
     \<lparr>v_row = result,
      v_customer = find (\<lambda>u. user_id u = sr_customerId result) (users db),
      v_product = map_option (\<lambda>p. p\<lparr>prod_images := Some (parseJsonSafe (prod_images p))\<rparr>)
                    (find (\<lambda>p. prod_id p = sr_productId result) (products db)),
      v_assignedAgent = find (\<lambda>u. Some (user_id u) = sr_assignedToId result) (users db),
      v_subscription = find (\<lambda>x. Some (sub_id x) = sr_subscriptionId result) (subscriptions db),
      v_installationRequest =
        find (\<lambda>r. Some (ir_id r) = sr_installationRequestId result) (installationRequests db),
      v_images = parseJsonSafe (sr_images result),
      v_beforeImages = parseJsonSafe (sr_beforeImages result),
      v_afterImages = parseJsonSafe (sr_afterImages result),
      v_paymentStatus = paymentStatus\<rparr>"

text \<open>
  \<^verbatim>\<open>getServiceRequestById\<close> (lines 92-175): null when no row has the id, else the
  representation of the row; the computation of the payment status may throw. The view
  spreads the row (\<^verbatim>\<open>...result\<close>): the properties the operations below read from it
  (\<^verbatim>\<open>status\<close>, \<^verbatim>\<open>type\<close>, \<^verbatim>\<open>assignedToId\<close>, \<^verbatim>\<open>requirePayment\<close>, \<^verbatim>\<open>installationRequestId\<close>,
  \<^verbatim>\<open>subscriptionId\<close>, \<^verbatim>\<open>razorpaySubscriptionId\<close>) are those of \<open>v_row\<close>.
\<close>

definition getServiceRequestById :: "database \<Rightarrow> string \<Rightarrow> error + ServiceRequestView option" where
  "getServiceRequestById db i =
     (case findServiceRequest db i of
        None \<Rightarrow> Inr None
      | Some result \<Rightarrow>
          (case paymentStatusOf db result of
             Inl e \<Rightarrow> Inl e
           | Inr paymentStatus \<Rightarrow> Inr (Some (viewOf db result paymentStatus))))"

definition getFranchiseById :: "database \<Rightarrow> string \<Rightarrow> Franchise option" where
  "getFranchiseById db i = find (\<lambda>f. fr_id f = i) (franchises db)"

section \<open>The action history log\<close>

text \<open>
  Modelled from the spec: \<^verbatim>\<open>logActionHistory\<close> of \<^verbatim>\<open>utils/actionHistory\<close> is not among the
  sources. Spec 4.4: an append-only write that never updates or deletes a prior entry, made
  through the write handle that \<^verbatim>\<open>fastify.db\<close> holds when it is called. The argument \<open>h\<close> is
  the state behind that handle.
\<close>

definition logActionHistory :: "database \<Rightarrow> ActionHistoryEntry \<Rightarrow> database" where
  "logActionHistory h e = h\<lparr>actionHistory := actionHistory h @ [e]\<rparr>"

text \<open>
  \<^verbatim>\<open>logActionHistoryInTransaction\<close> (lines 647-664) replaces \<^verbatim>\<open>fastify.db\<close> by the
  transaction handle, calls \<^verbatim>\<open>logActionHistory\<close> and restores the handle: the entry lands in
  the transaction's state \<open>tx\<close>.
\<close>

definition logActionHistoryInTransaction :: "database \<Rightarrow> ActionHistoryEntry \<Rightarrow> database" where
  "logActionHistoryInTransaction tx actionData = logActionHistory tx actionData"

section \<open>Transactions and write failures\<close>

text \<open>
  \<^verbatim>\<open>db.transaction(fn)\<close>: \<open>body\<close> runs on the transaction's own state, which starts as the
  committed state. When the body throws, the transaction is rolled back and the committed
  state stays as it was; when it returns, its state is committed.
\<close>

definition transaction ::
  "database \<Rightarrow> (database \<Rightarrow> error + ('a \<times> database)) \<Rightarrow> (error + 'a) \<times> database" where
  "transaction db body =
     (case body db of Inl e \<Rightarrow> (Inl e, db) | Inr (v, tx) \<Rightarrow> (Inr v, tx))"

definition andThen :: "error + 'a \<Rightarrow> ('a \<Rightarrow> error + 'b) \<Rightarrow> error + 'b" where
  "andThen r f = (case r of Inl e \<Rightarrow> Inl e | Inr x \<Rightarrow> f x)"

text \<open>
  The writes of the status transaction, in the order of lines 534-569. A write of the store
  may throw; \<open>fails w\<close> says that the write at \<open>w\<close> does.
\<close>

datatype write_point =
  UpdateServiceRequest | SyncUpdateInstallation | SyncLog | LogServiceRequest | LogSubscription

type_synonym faults = "write_point \<Rightarrow> bool"

definition attempt :: "faults \<Rightarrow> write_point \<Rightarrow> database \<Rightarrow> error + database" where
  "attempt fails w written = (if fails w then Inl (Thrown ''write failed'') else Inr written)"

section \<open>The installation synchronizer (lines 589-644)\<close>

text \<open>The \<^verbatim>\<open>switch\<close> of lines 602-626: the installation status and the action type, if any.\<close>

fun sync_switch :: "ServiceRequestStatus \<Rightarrow> (InstallationRequestStatus \<times> ActionType) option" where
  "sync_switch IN_PROGRESS = Some (INSTALLATION_IN_PROGRESS, INSTALLATION_REQUEST_IN_PROGRESS)"
| "sync_switch PAYMENT_PENDING = Some (IR_PAYMENT_PENDING, INSTALLATION_REQUEST_COMPLETED)"
| "sync_switch COMPLETED = Some (INSTALLATION_COMPLETED, INSTALLATION_REQUEST_COMPLETED)"
| "sync_switch CANCELLED = Some (IR_CANCELLED, INSTALLATION_REQUEST_CANCELLED)"
| "sync_switch SCHEDULED = Some (INSTALLATION_SCHEDULED, INSTALLATION_REQUEST_SCHEDULED)"
| "sync_switch CREATED = None"
| "sync_switch ASSIGNED = None"

text \<open>
  \<^verbatim>\<open>set({status: installationStatus, ...updateData})\<close>: \<^verbatim>\<open>updateData\<close> holds the two null
  payment-link fields in the \<^verbatim>\<open>CANCELLED\<close> case (lines 618-619) and is empty otherwise.
\<close>

definition sync_set ::
  "ServiceRequestStatus \<Rightarrow> InstallationRequestStatus \<Rightarrow> InstallationRequest \<Rightarrow> InstallationRequest" where
  "sync_set serviceRequestStatus installationStatus r =
     (if serviceRequestStatus = CANCELLED
      then r\<lparr>ir_status := installationStatus, ir_razorpayPaymentLink := None,
             ir_razorpaySubscriptionId := None\<rparr>
      else r\<lparr>ir_status := installationStatus\<rparr>)"

definition update_installationRequests ::
  "string \<Rightarrow> (InstallationRequest \<Rightarrow> InstallationRequest) \<Rightarrow> database \<Rightarrow> database" where
  "update_installationRequests i f tx =
     tx\<lparr>installationRequests := map (\<lambda>r. if ir_id r = i then f r else r) (installationRequests tx)\<rparr>"

definition sync_entry ::
  "string \<Rightarrow> ActionType \<Rightarrow> ServiceRequestStatus \<Rightarrow> actor \<Rightarrow> ActionHistoryEntry" where
  "sync_entry installationRequestId installationActionType serviceRequestStatus user =
     \<lparr>ah_entityType = None, ah_entityId = None, ah_serviceRequestId = None,
      ah_installationRequestId = Some installationRequestId, ah_paymentId = None,
      ah_actionType = Member installationActionType,
      ah_fromStatus = Some (OfServiceRequest serviceRequestStatus),
      ah_toStatus = Some (OfServiceRequest ASSIGNED),
      ah_performedBy = userId user, ah_performedByRole = role user,
      ah_comment = Some (''Service agent '' @ interpolate (textOr (name user) (phone user)) @ '' assigned''),
      ah_metadata = [], ah_details = []\<rparr>"

definition syncInstallationRequestStatusInTransaction ::
  "faults \<Rightarrow> database \<Rightarrow> string \<Rightarrow> ServiceRequestStatus \<Rightarrow> actor \<Rightarrow> error + database" where
  "syncInstallationRequestStatusInTransaction fails tx installationRequestId serviceRequestStatus user =
     (case sync_switch serviceRequestStatus of
        None \<Rightarrow> Inr tx
      | Some (installationStatus, installationActionType) \<Rightarrow>
          andThen (attempt fails SyncUpdateInstallation
                     (update_installationRequests installationRequestId
                        (sync_set serviceRequestStatus installationStatus) tx))
            (\<lambda>tx1. attempt fails SyncLog
                     (logActionHistoryInTransaction tx1
                        (sync_entry installationRequestId installationActionType
                           serviceRequestStatus user))))"

section \<open>updateServiceRequestStatus (lines 402-574)\<close>

text \<open>
  The payload \<^verbatim>\<open>data\<close>. Every read of it is \<^verbatim>\<open>data?.field\<close>, so an absent payload behaves as
  the payload with every field absent.
\<close>

record StatusUpdateData =
  agentId :: "string option"
  completedAt :: "string option"
  scheduledDate :: "string option"
  beforeImages :: "string list option"
  afterImages :: "string list option"
  images :: "string list option"

fun validTransitions :: "ServiceRequestStatus \<Rightarrow> ServiceRequestStatus list" where
  "validTransitions CREATED = [ASSIGNED, CANCELLED]"
| "validTransitions ASSIGNED = [SCHEDULED, CANCELLED, ASSIGNED]"
| "validTransitions SCHEDULED = [IN_PROGRESS, CANCELLED]"
| "validTransitions IN_PROGRESS = [PAYMENT_PENDING, COMPLETED, CANCELLED]"
| "validTransitions PAYMENT_PENDING = [COMPLETED, CANCELLED]"
| "validTransitions COMPLETED = []"
| "validTransitions CANCELLED = [ASSIGNED, SCHEDULED]"

text \<open>\<^verbatim>\<open>validTransitions[currentStatus]?.join(', ') || 'none'\<close>: the empty string is falsy.\<close>

definition validTargetsText :: "ServiceRequestStatus \<Rightarrow> string" where
  "validTargetsText currentStatus =
     (let joined = join_comma (map srStatusValue (validTransitions currentStatus))
      in if joined = [] then ''none'' else joined)"

definition invalidTransitionMessage :: "ServiceRequestStatus \<Rightarrow> ServiceRequestStatus \<Rightarrow> string" where
  "invalidTransitionMessage currentStatus status =
     ''Invalid status transition from '' @ srStatusValue currentStatus @ '' to '' @
     srStatusValue status @ ''. Valid transitions are: '' @ validTargetsText currentStatus"

text \<open>
  The status-specific validations of the \<^verbatim>\<open>switch\<close> (lines 451-510): the error thrown, if
  any. \<open>db\<close> is read through the caller's handle, before the transaction opens.
\<close>

fun validate ::
  "database \<Rightarrow> ServiceRequest \<Rightarrow> StatusUpdateData \<Rightarrow> ServiceRequestStatus \<Rightarrow> error option" where
  "validate db serviceRequest data ASSIGNED =
     (if \<not> truthy (agentId data) then Some (BadRequest ''Agent ID is required for assignment'')
      else None)"
| "validate db serviceRequest data SCHEDULED =
     (if \<not> truthy (sr_assignedToId serviceRequest)
      then Some (BadRequest ''Cannot schedule without assigned agent'')
      else if \<not> truthy (scheduledDate data) then Some (BadRequest ''Scheduled date is required'')
      else None)"
| "validate db serviceRequest data IN_PROGRESS =
     (if sr_type serviceRequest = ''installation'' \<and> \<not> hasImages (beforeImages data)
      then Some (BadRequest ''Before images are required to start installation service requests'')
      else None)"
| "validate db serviceRequest data PAYMENT_PENDING =
     (if \<not> sr_requirePayment serviceRequest
      then Some (BadRequest ''This service request does not require payment'')
      else if \<not> hasImages (afterImages data)
      then Some (BadRequest ''Completion images are required before requesting payment'')
      else None)"
| "validate db serviceRequest data COMPLETED =
     (if \<not> truthy (sr_installationRequestId serviceRequest) \<and> \<not> hasImages (afterImages data)
      then Some (BadRequest ''Completion images are required to mark as completed'')
      else if sr_requirePayment serviceRequest \<and> sr_status serviceRequest = IN_PROGRESS
      then Some (BadRequest
             ''Service requests requiring payment must go through PAYMENT_PENDING status first'')
      else if sr_requirePayment serviceRequest \<and> truthy (sr_installationRequestId serviceRequest)
      then (case find (\<lambda>p. pay_installationRequestId p = sr_installationRequestId serviceRequest)
                   (payments db) of
              None \<Rightarrow> Some (BadRequest ''Please Complete Payment First'')
            | Some paymnet \<Rightarrow>
                if pay_status paymnet \<noteq> PAY_COMPLETED \<or>
                   pay_installationRequestId paymnet \<noteq> sr_installationRequestId serviceRequest
                then Some (BadRequest ''Please Complete Payment First'')
                else None)
      else None)"
| "validate db serviceRequest data CANCELLED = None"
| "validate db serviceRequest data CREATED = None"

text \<open>
  The object \<^verbatim>\<open>updateData\<close> handed to \<^verbatim>\<open>set\<close>. For a nullable column, \<open>None\<close> is an absent
  key (the column keeps its value), \<open>Some None\<close> is null and \<open>Some (Some v)\<close> a value.
\<close>

record UpdateData =
  u_status :: ServiceRequestStatus
  u_updatedAt :: string
  u_assignedToId :: "string option"
  u_scheduledDate :: "string option"
  u_completedAt :: "string option"
  u_beforeImages :: "string list option option"
  u_afterImages :: "string list option option"

text \<open>
  Lines 518-527: \<^verbatim>\<open>updateData[imageField] = JSON.stringify(imgs)\<close>, the field chosen by the
  target status.
\<close>

definition storeImages ::
  "ServiceRequestStatus \<Rightarrow> string list option \<Rightarrow> UpdateData \<Rightarrow> UpdateData" where
  "storeImages status imgs u =
     (if hasImages imgs
      then (if status = IN_PROGRESS then u\<lparr>u_beforeImages := Some imgs\<rparr>
            else u\<lparr>u_afterImages := Some imgs\<rparr>)
      else u)"

text \<open>
  \<^verbatim>\<open>updateData\<close> as lines 445-448, 505-506 and 513-527 build it, in that order. \<open>now\<close> is
  \<^verbatim>\<open>new Date().toISOString()\<close>.
\<close>

definition buildUpdateData ::
  "string \<Rightarrow> ServiceRequestStatus \<Rightarrow> StatusUpdateData \<Rightarrow> UpdateData" where
  "buildUpdateData now status data =
     (let u0 = \<lparr>u_status = status, u_updatedAt = now, u_assignedToId = None,
                u_scheduledDate = None, u_completedAt = None, u_beforeImages = None,
                u_afterImages = None\<rparr>;
          u1 = (if status = CANCELLED
                then u0\<lparr>u_beforeImages := Some None, u_afterImages := Some None\<rparr> else u0);
          u2 = (if truthy (agentId data) then u1\<lparr>u_assignedToId := agentId data\<rparr> else u1);
          u3 = (if truthy (scheduledDate data) then u2\<lparr>u_scheduledDate := scheduledDate data\<rparr>
                else u2);
          u4 = (if status = COMPLETED then u3\<lparr>u_completedAt := Some now\<rparr> else u3);
          u5 = storeImages status (afterImages data) u4
      in storeImages status (beforeImages data) u5)"

text \<open>\<^verbatim>\<open>set(updateData)\<close> on one row: a key that is present overwrites its column.\<close>

definition set_serviceRequest :: "UpdateData \<Rightarrow> ServiceRequest \<Rightarrow> ServiceRequest" where
  "set_serviceRequest u r =
     r\<lparr>sr_status := u_status u,
       sr_updatedAt := u_updatedAt u,
       sr_assignedToId := (case u_assignedToId u of None \<Rightarrow> sr_assignedToId r | Some a \<Rightarrow> Some a),
       sr_scheduledDate := (case u_scheduledDate u of None \<Rightarrow> sr_scheduledDate r | Some d \<Rightarrow> Some d),
       sr_completedAt := (case u_completedAt u of None \<Rightarrow> sr_completedAt r | Some d \<Rightarrow> Some d),
       sr_beforeImages := (case u_beforeImages u of None \<Rightarrow> sr_beforeImages r | Some v \<Rightarrow> v),
       sr_afterImages := (case u_afterImages u of None \<Rightarrow> sr_afterImages r | Some v \<Rightarrow> v)\<rparr>"

definition update_serviceRequests ::
  "string \<Rightarrow> (ServiceRequest \<Rightarrow> ServiceRequest) \<Rightarrow> database \<Rightarrow> database" where
  "update_serviceRequests i f tx =
     tx\<lparr>serviceRequests := map (\<lambda>r. if sr_id r = i then f r else r) (serviceRequests tx)\<rparr>"

text \<open>The two audit entries of lines 542-569.\<close>

definition status_entry ::
  "string \<Rightarrow> ServiceRequestStatus \<Rightarrow> ServiceRequestStatus \<Rightarrow> actor \<Rightarrow> StatusUpdateData \<Rightarrow>
   ActionHistoryEntry" where
  "status_entry i currentStatus status user data =
     \<lparr>ah_entityType = Some ''service_request'', ah_entityId = Some i,
      ah_serviceRequestId = None, ah_installationRequestId = None, ah_paymentId = None,
      ah_actionType = Template (''status_updated_to_'' @ toLowerCase (srStatusValue status)),
      ah_fromStatus = None, ah_toStatus = None,
      ah_performedBy = userId user, ah_performedByRole = role user, ah_comment = None,
      ah_metadata = [],
      ah_details = [(''fromStatus'', JStr (srStatusValue currentStatus)),
                    (''toStatus'', JStr (srStatusValue status)),
                    (''agentId'', jsOfString (agentId data)),
                    (''scheduledDate'', jsOfString (scheduledDate data)),
                    (''imagesCount'', JNum (case images data of None \<Rightarrow> 0 | Some xs \<Rightarrow> length xs))]\<rparr>"

definition subscription_entry ::
  "string \<Rightarrow> string \<Rightarrow> ServiceRequestStatus \<Rightarrow> actor \<Rightarrow> ActionHistoryEntry" where
  "subscription_entry i subscriptionId status user =
     \<lparr>ah_entityType = Some ''subscription'', ah_entityId = Some subscriptionId,
      ah_serviceRequestId = None, ah_installationRequestId = None, ah_paymentId = None,
      ah_actionType = Template (''service_request_'' @ toLowerCase (srStatusValue status)),
      ah_fromStatus = None, ah_toStatus = None,
      ah_performedBy = userId user, ah_performedByRole = role user, ah_comment = None,
      ah_metadata = [],
      ah_details = [(''serviceRequestId'', JStr i), (''status'', JStr (srStatusValue status))]\<rparr>"

text \<open>
  The callback of \<^verbatim>\<open>db.transaction\<close> (lines 530-573). \<open>db\<close> is the committed state: the
  closing \<^verbatim>\<open>getServiceRequestById(id)\<close> reads through \<^verbatim>\<open>fastify.db\<close>, which
  \<^verbatim>\<open>logActionHistoryInTransaction\<close> has restored to the caller's handle. \<open>serviceRequest\<close>
  is the row of the representation read before the transaction.
\<close>

definition statusTransaction ::
  "faults \<Rightarrow> database \<Rightarrow> string \<Rightarrow> ServiceRequestStatus \<Rightarrow> actor \<Rightarrow> StatusUpdateData \<Rightarrow>
   ServiceRequest \<Rightarrow> UpdateData \<Rightarrow> database \<Rightarrow>
   error + (ServiceRequestView option \<times> database)" where
  "statusTransaction fails db i status user data serviceRequest updateData tx =
     andThen (attempt fails UpdateServiceRequest
                (update_serviceRequests i (set_serviceRequest updateData) tx))
       (\<lambda>tx1. andThen
          (case sr_installationRequestId serviceRequest of
             None \<Rightarrow> Inr tx1
           | Some installationRequestId \<Rightarrow>
               if installationRequestId = [] then Inr tx1
               else syncInstallationRequestStatusInTransaction fails tx1 installationRequestId
                      status user)
       (\<lambda>tx2. andThen
          (attempt fails LogServiceRequest
             (logActionHistoryInTransaction tx2
                (status_entry i (sr_status serviceRequest) status user data)))
       (\<lambda>tx3. andThen
          (case sr_subscriptionId serviceRequest of
             None \<Rightarrow> Inr tx3
           | Some subscriptionId \<Rightarrow>
               if subscriptionId = [] then Inr tx3
               else attempt fails LogSubscription
                      (logActionHistoryInTransaction tx3
                         (subscription_entry i subscriptionId status user)))
       (\<lambda>tx4. andThen (getServiceRequestById db i) (\<lambda>refreshed. Inr (refreshed, tx4))))))"

text \<open>
  The operation returns the value or the error thrown, and the committed state after it.
\<close>

definition updateServiceRequestStatus ::
  "faults \<Rightarrow> string \<Rightarrow> database \<Rightarrow> string \<Rightarrow> ServiceRequestStatus \<Rightarrow> actor \<Rightarrow>
   StatusUpdateData \<Rightarrow> (error + ServiceRequestView option) \<times> database" where
  "updateServiceRequestStatus fails now db i status user data =
     (case getServiceRequestById db i of
        Inl e \<Rightarrow> (Inl e, db)
      | Inr None \<Rightarrow> (Inl (NotFound ''Service Request''), db)
      | Inr (Some view) \<Rightarrow>
         (let serviceRequest = v_row view in
          if status \<notin> set (validTransitions (sr_status serviceRequest))
          then (Inl (BadRequest (invalidTransitionMessage (sr_status serviceRequest) status)), db)
          else (case validate db serviceRequest data status of
                  Some e \<Rightarrow> (Inl e, db)
                | None \<Rightarrow>
                    transaction db
                      (statusTransaction fails db i status user data serviceRequest
                         (buildUpdateData now status data)))))"

section \<open>createInstallationServiceRequest (lines 270-399)\<close>

text \<open>
  Values the environment supplies: the clock, \<^verbatim>\<open>generateId\<close> and \<^verbatim>\<open>generateConnectId\<close>
  (\<^verbatim>\<open>utils/helpers\<close> is not among the sources), \<^verbatim>\<open>getNextMonthDate(now)\<close> and the ISO text of a
  gateway timestamp in seconds.
\<close>

record env =
  env_now :: string
  env_serviceRequestId :: string
  env_paymentId :: string
  env_subscriptionId :: string
  env_connectId :: string
  env_nextMonth :: string
  env_isoOfSeconds :: "nat \<Rightarrow> string"

record InstallationServiceRequestData =
  c_installationRequestId :: string
  c_assignedToId :: "string option"
  c_scheduledDate :: "string option"
  c_description :: string

definition scheduled_entry ::
  "env \<Rightarrow> InstallationRequest \<Rightarrow> InstallationServiceRequestData \<Rightarrow> actor \<Rightarrow> ActionHistoryEntry" where
  "scheduled_entry e installationRequest data user =
     \<lparr>ah_entityType = None, ah_entityId = None, ah_serviceRequestId = None,
      ah_installationRequestId = Some (c_installationRequestId data), ah_paymentId = None,
      ah_actionType = Member INSTALLATION_REQUEST_SCHEDULED,
      ah_fromStatus = Some (OfInstallationRequest (ir_status installationRequest)),
      ah_toStatus = Some (OfInstallationRequest INSTALLATION_SCHEDULED),
      ah_performedBy = userId user, ah_performedByRole = role user,
      ah_comment = Some ''Installation scheduled via service request creation'',
      ah_metadata = [(''serviceRequestId'', JStr (env_serviceRequestId e)),
                     (''assignedTechnicianId'', jsOfString (c_assignedToId data))],
      ah_details = []\<rparr>"

text \<open>The row of lines 329-349.\<close>

definition newInstallationServiceRequest ::
  "env \<Rightarrow> InstallationRequest \<Rightarrow> InstallationServiceRequestData \<Rightarrow> ServiceRequest" where
  "newInstallationServiceRequest e installationRequest data =
     \<lparr>sr_id = env_serviceRequestId e, sr_subscriptionId = None,
      sr_customerId = ir_customerId installationRequest,
      sr_productId = ir_productId installationRequest,
      sr_installationRequestId = Some (c_installationRequestId data),
      sr_type = ServiceRequestType_INSTALLATION, sr_description = c_description data,
      sr_images = None,
      sr_status = (if truthy (c_assignedToId data) then SCHEDULED else CREATED),
      sr_assignedToId = js_or (c_assignedToId data) None,
      sr_franchiseId = ir_franchiseId installationRequest,
      sr_scheduledDate = js_or (c_scheduledDate data) None,
      sr_completedDate = None, sr_completedAt = None, sr_beforeImages = None,
      sr_afterImages = None, sr_requirePayment = True, sr_razorpaySubscriptionId = None,
      sr_createdAt = env_now e, sr_updatedAt = env_now e\<rparr>"

text \<open>
  The writes go through \<^verbatim>\<open>fastify.db\<close>, outside any transaction, so they stay when the
  closing \<^verbatim>\<open>getServiceRequestById\<close> throws. In \<^verbatim>\<open>set\<close>, a key whose value is \<^verbatim>\<open>undefined\<close>
  (an absent \<^verbatim>\<open>data.assignedToId\<close>) leaves its column as it is.
\<close>

definition createInstallationServiceRequest ::
  "env \<Rightarrow> database \<Rightarrow> InstallationServiceRequestData \<Rightarrow> actor \<Rightarrow>
   (error + ServiceRequestView option) \<times> database" where
  "createInstallationServiceRequest e db data user =
     (case find (\<lambda>r. ir_id r = c_installationRequestId data) (installationRequests db) of
        None \<Rightarrow> (Inl (NotFound ''Installation Request''), db)
      | Some installationRequest \<Rightarrow>
         (case find (\<lambda>r. sr_installationRequestId r = Some (c_installationRequestId data) \<and>
                          sr_type r = ServiceRequestType_INSTALLATION) (serviceRequests db) of
            Some existingServiceRequest \<Rightarrow>
              (let db1 = update_serviceRequests (sr_id existingServiceRequest)
                           (\<lambda>r. r\<lparr>sr_status := SCHEDULED,
                                  sr_assignedToId := (case c_assignedToId data of
                                                        None \<Rightarrow> sr_assignedToId r
                                                      | Some a \<Rightarrow> Some a)\<rparr>) db;
                   db2 = update_installationRequests (ir_id installationRequest)
                           (\<lambda>r. r\<lparr>ir_status := INSTALLATION_SCHEDULED\<rparr>) db1;
                   db3 = logActionHistory db2 (scheduled_entry e installationRequest data user)
               in (getServiceRequestById db3 (sr_id existingServiceRequest), db3))
          | None \<Rightarrow>
              if role user = FRANCHISE_OWNER \<and>
                 (case getFranchiseById db (ir_franchiseId installationRequest) of
                    None \<Rightarrow> True
                  | Some franchise \<Rightarrow> fr_ownerId franchise \<noteq> Some (userId user))
              then (Inl (Forbidden ''Installation request is not in your franchise area''), db)
              else if truthy (c_assignedToId data) \<and>
                 (case find (\<lambda>u. Some (user_id u) = c_assignedToId data) (users db) of
                    None \<Rightarrow> True
                  | Some agent \<Rightarrow> user_role agent \<noteq> SERVICE_AGENT)
              then (Inl (BadRequest ''Invalid service agent''), db)
              else
               (let db1 = db\<lparr>serviceRequests := serviceRequests db @
                               [newInstallationServiceRequest e installationRequest data]\<rparr>;
                    db2 = update_installationRequests (ir_id installationRequest)
                            (\<lambda>r. r\<lparr>ir_status := INSTALLATION_SCHEDULED,
                                   ir_assignedTechnicianId :=
                                     (case c_assignedToId data of
                                        None \<Rightarrow> ir_assignedTechnicianId r
                                      | Some a \<Rightarrow> Some a)\<rparr>) db1;
                    db3 = logActionHistory db2 (scheduled_entry e installationRequest data user)
                in (getServiceRequestById db3 (env_serviceRequestId e), db3))))"

text \<open>Spec 3: \<^verbatim>\<open>assignedToId\<close> is non-null whenever the status is neither CREATED nor CANCELLED.\<close>

definition assigned_ok :: "ServiceRequest \<Rightarrow> bool" where
  "assigned_ok r = (sr_status r = CREATED \<or> sr_status r = CANCELLED \<or> sr_assignedToId r \<noteq> None)"

definition assigned_invariant :: "database \<Rightarrow> bool" where
  "assigned_invariant db = list_all assigned_ok (serviceRequests db)"

section \<open>refreshPaymentStatus (lines 1029-1367)\<close>

text \<open>The payment gateway client (\<^verbatim>\<open>fastify.razorpay\<close>): either call may throw.\<close>

record GatewaySubscription =
  gs_id :: string
  gs_status :: string
  gs_current_start :: "nat option"
  gs_current_end :: "nat option"

record GatewayInvoice =
  inv_status :: string
  inv_payment_id :: string
  inv_amount :: nat

record gateway =
  subscriptions_fetch :: "string \<Rightarrow> error + GatewaySubscription"
  invoices_all :: "string option \<Rightarrow> error + GatewayInvoice list"

text \<open>
  What the operation does to the outside, in order: the transaction's boundaries, the calls
  to the gateway and the writes of the transaction (by table).
\<close>

datatype event =
  TxBegin | TxCommit | TxRollback
  | GatewayFetchSubscription string | GatewayListInvoices "string option"
  | DbWrite string

type_synonym txstate = "database \<times> event list"

definition tx_write :: "string \<Rightarrow> (database \<Rightarrow> database) \<Rightarrow> txstate \<Rightarrow> txstate" where
  "tx_write table f s = (f (fst s), snd s @ [DbWrite table])"

definition gateway_call :: "event \<Rightarrow> txstate \<Rightarrow> txstate" where
  "gateway_call ev s = (fst s, snd s @ [ev])"

text \<open>
  \<^verbatim>\<open>db.transaction(fn)\<close> with its events: rolled back when the callback throws, committed
  when it returns.
\<close>

definition tracedTransaction ::
  "database \<Rightarrow> (txstate \<Rightarrow> (error + 'a) \<times> txstate) \<Rightarrow> (error + 'a) \<times> database \<times> event list" where
  "tracedTransaction db body =
     (case body (db, [TxBegin]) of
        (Inl e, s) \<Rightarrow> (Inl e, db, snd s @ [TxRollback])
      | (Inr v, s) \<Rightarrow> (Inr v, fst s, snd s @ [TxCommit]))"

record SuccessfulPayment =
  sp_id :: string
  sp_amount :: nat
  sp_method :: string
  sp_razorpaySubscriptionId :: "string option"
  sp_subscriptionDetails :: GatewaySubscription

record PaymentDetails =
  pd_method :: string
  pd_amount :: number
  pd_transactionId :: "string option"

record RefreshResult =
  rr_message :: string
  rr_paymentStatus :: string
  rr_paymentDetails :: "PaymentDetails option"

text \<open>Lines 1057-1082: the gateway is asked for the subscription and its latest invoice.\<close>

definition findSuccessfulPayment ::
  "gateway \<Rightarrow> ServiceRequest \<Rightarrow> InstallationRequest \<Rightarrow> txstate \<Rightarrow>
   (error + SuccessfulPayment option) \<times> txstate" where
  "findSuccessfulPayment gw serviceRequest installationRequest s =
     (case ir_razorpaySubscriptionId installationRequest of
        None \<Rightarrow> (Inr None, s)
      | Some sid \<Rightarrow>
          if sid = [] then (Inr None, s)
          else
           (let s1 = gateway_call (GatewayFetchSubscription sid) s in
            case subscriptions_fetch gw sid of
              Inl e \<Rightarrow> (Inl e, s1)
            | Inr subscription \<Rightarrow>
                if gs_status subscription = ''active'' \<or> gs_status subscription = ''authenticated''
                then
                 (let s2 = gateway_call
                             (GatewayListInvoices (sr_razorpaySubscriptionId serviceRequest)) s1 in
                  case invoices_all gw (sr_razorpaySubscriptionId serviceRequest) of
                    Inl e \<Rightarrow> (Inl e, s2)
                  | Inr items \<Rightarrow>
                     (case items of
                        [] \<Rightarrow> (Inr None, s2)
                      | invoice # rest \<Rightarrow>
                          if inv_status invoice = ''paid''
                          then (Inr (Some \<lparr>sp_id = inv_payment_id invoice,
                                            sp_amount = inv_amount invoice,
                                            sp_method = ''SUBSCRIPTION'',
                                            sp_razorpaySubscriptionId =
                                              sr_razorpaySubscriptionId serviceRequest,
                                            sp_subscriptionDetails = subscription\<rparr>), s2)
                          else (Inr None, s2)))
                else (Inr None, s1)))"

definition update_payments :: "string \<Rightarrow> (Payment \<Rightarrow> Payment) \<Rightarrow> database \<Rightarrow> database" where
  "update_payments i f tx =
     tx\<lparr>payments := map (\<lambda>p. if pay_id p = i then f p else p) (payments tx)\<rparr>"

definition insert_payment :: "Payment \<Rightarrow> database \<Rightarrow> database" where
  "insert_payment p tx = tx\<lparr>payments := payments tx @ [p]\<rparr>"

definition insert_subscription :: "Subscription \<Rightarrow> database \<Rightarrow> database" where
  "insert_subscription x tx = tx\<lparr>subscriptions := subscriptions tx @ [x]\<rparr>"

text \<open>
  \<^verbatim>\<open>t ? new Date(t * 1000).toISOString() : now\<close> and the same with \<^verbatim>\<open>null\<close> for the
  fallback (lines 1120-1122): zero is falsy.
\<close>

definition periodStart :: "env \<Rightarrow> nat option \<Rightarrow> string" where
  "periodStart e t =
     (case t of None \<Rightarrow> env_now e
      | Some n \<Rightarrow> if n = 0 then env_now e else env_isoOfSeconds e n)"

definition periodEnd :: "env \<Rightarrow> nat option \<Rightarrow> string option" where
  "periodEnd e t =
     (case t of None \<Rightarrow> None
      | Some n \<Rightarrow> if n = 0 then None else Some (env_isoOfSeconds e n))"

text \<open>The row of \<^verbatim>\<open>tx.insert(subscriptions)\<close> (lines 1128-1146 and 1255-1273).\<close>

definition newSubscription ::
  "env \<Rightarrow> string \<Rightarrow> InstallationRequest \<Rightarrow> Product \<Rightarrow> SuccessfulPayment \<Rightarrow>
   string \<Rightarrow> string option \<Rightarrow> string option \<Rightarrow> Subscription" where
  "newSubscription e requestId installationRequest product successfulPayment
     currentPeriodStart currentPeriodEnd nextPaymentDate =
     \<lparr>sub_id = env_subscriptionId e, sub_connectId = env_connectId e, sub_requestId = requestId,
      sub_customerId = ir_customerId installationRequest,
      sub_productId = ir_productId installationRequest,
      sub_franchiseId = ir_franchiseId installationRequest,
      sub_planName = prod_name product @ '' Rental Plan'',
      sub_status = ''ACTIVE'', sub_startDate = env_now e,
      sub_currentPeriodStartDate = currentPeriodStart,
      sub_currentPeriodEndDate = currentPeriodEnd,
      sub_nextPaymentDate = nextPaymentDate,
      sub_monthlyAmount = prod_rentPrice product, sub_depositAmount = prod_deposit product,
      sub_razorpaySubscriptionId = Some (gs_id (sp_subscriptionDetails successfulPayment))\<rparr>"

definition payment_entry ::
  "string \<Rightarrow> string \<Rightarrow> SuccessfulPayment \<Rightarrow> actor \<Rightarrow> ActionHistoryEntry" where
  "payment_entry paymentId requestId successfulPayment user =
     \<lparr>ah_entityType = None, ah_entityId = None, ah_serviceRequestId = None,
      ah_installationRequestId = Some requestId, ah_paymentId = Some paymentId,
      ah_actionType = Member PAYMENT_COMPLETED,
      ah_fromStatus = Some (OfPayment PAY_PENDING), ah_toStatus = Some (OfPayment PAY_COMPLETED),
      ah_performedBy = userId user, ah_performedByRole = role user,
      ah_comment = Some ''Payment status refreshed from Razorpay'',
      ah_metadata = [(''razorpayPaymentId'', JStr (sp_id successfulPayment)),
                     (''razorpaySubscriptionId'',
                      JStr (gs_id (sp_subscriptionDetails successfulPayment)))],
      ah_details = []\<rparr>"

definition completion_entry :: "string \<Rightarrow> string \<Rightarrow> actor \<Rightarrow> ActionHistoryEntry" where
  "completion_entry serviceRequestId paymentId user =
     \<lparr>ah_entityType = None, ah_entityId = None, ah_serviceRequestId = Some serviceRequestId,
      ah_installationRequestId = None, ah_paymentId = None,
      ah_actionType = Member SERVICE_REQUEST_COMPLETED,
      ah_fromStatus = Some (OfServiceRequest PAYMENT_PENDING),
      ah_toStatus = Some (OfServiceRequest COMPLETED),
      ah_performedBy = userId user, ah_performedByRole = role user,
      ah_comment = Some ''Service request completed after payment verification'',
      ah_metadata = [(''paymentId'', JStr paymentId)], ah_details = []\<rparr>"

definition repair_entry :: "env \<Rightarrow> string \<Rightarrow> Payment \<Rightarrow> actor \<Rightarrow> ActionHistoryEntry" where
  "repair_entry e requestId existingPayment user =
     \<lparr>ah_entityType = None, ah_entityId = None, ah_serviceRequestId = None,
      ah_installationRequestId = Some requestId, ah_paymentId = None,
      ah_actionType = Member INSTALLATION_REQUEST_COMPLETED,
      ah_fromStatus = Some (OfInstallationRequest IR_PAYMENT_PENDING),
      ah_toStatus = Some (OfInstallationRequest INSTALLATION_COMPLETED),
      ah_performedBy = userId user, ah_performedByRole = role user,
      ah_comment = Some ''Subscription created for completed payment'',
      ah_metadata = [(''connectId'', JStr (env_connectId e)),
                     (''subscriptionId'', JStr (env_subscriptionId e)),
                     (''paymentId'', JStr (pay_id existingPayment))],
      ah_details = []\<rparr>"

text \<open>
  Lines 1128-1191: the writes that create the missing subscription of a payment already
  stored as completed.
\<close>

definition repairSubscription ::
  "env \<Rightarrow> string \<Rightarrow> string \<Rightarrow> actor \<Rightarrow> SuccessfulPayment \<Rightarrow> Payment \<Rightarrow>
   InstallationRequest \<Rightarrow> Product \<Rightarrow> txstate \<Rightarrow> txstate" where
  "repairSubscription e serviceRequestId requestId user successfulPayment existingPayment
     installationRequest product s =
     (let details = sp_subscriptionDetails successfulPayment;
          s1 = tx_write ''subscriptions''
                 (insert_subscription
                    (newSubscription e requestId installationRequest product successfulPayment
                       (periodStart e (gs_current_start details))
                       (periodEnd e (gs_current_end details))
                       (periodEnd e (gs_current_end details)))) s;
          s2 = (if \<not> truthy (pay_subscriptionId existingPayment)
                then tx_write ''payments''
                       (update_payments (pay_id existingPayment)
                          (\<lambda>p. p\<lparr>pay_subscriptionId := Some (env_subscriptionId e),
                                 pay_updatedAt := env_now e,
                                 pay_razorpaySubscriptionId := Some (gs_id details)\<rparr>)) s1
                else s1);
          s3 = tx_write ''installation_requests''
                 (update_installationRequests requestId
                    (\<lambda>r. r\<lparr>ir_connectId := Some (env_connectId e),
                           ir_status := INSTALLATION_COMPLETED,
                           ir_completedDate := Some (env_now e),
                           ir_updatedAt := env_now e,
                           ir_razorpaySubscriptionId := Some (gs_id details)\<rparr>)) s2;
          s4 = tx_write ''service_requests''
                 (update_serviceRequests serviceRequestId
                    (\<lambda>r. r\<lparr>sr_status := COMPLETED,
                           sr_razorpaySubscriptionId := Some (gs_id details),
                           sr_subscriptionId := Some (env_subscriptionId e),
                           sr_completedAt := Some (env_now e),
                           sr_updatedAt := env_now e\<rparr>)) s3
      in tx_write ''action_history''
           (\<lambda>tx. logActionHistoryInTransaction tx
                    (repair_entry e requestId existingPayment user)) s4)"

text \<open>
  Lines 1098-1204: a completed payment is already stored. The subscription is created when
  it is missing; \<^verbatim>\<open>installationRequest.product.name\<close> throws when the product is missing.
\<close>

definition completedPaymentPath ::
  "env \<Rightarrow> string \<Rightarrow> string \<Rightarrow> actor \<Rightarrow> SuccessfulPayment \<Rightarrow> Payment \<Rightarrow> txstate \<Rightarrow>
   (error + RefreshResult) \<times> txstate" where
  "completedPaymentPath e serviceRequestId requestId user successfulPayment existingPayment s =
     (let already = \<lparr>rr_message = ''Payment already completed'', rr_paymentStatus = ''COMPLETED'',
                      rr_paymentDetails = Some \<lparr>pd_method = pay_paymentMethod existingPayment,
                        pd_amount = Over100 (pay_amount existingPayment),
                        pd_transactionId = pay_razorpayPaymentId existingPayment\<rparr>\<rparr> in
      case find (\<lambda>x. sub_requestId x = requestId) (subscriptions (fst s)) of
        Some existingSubscription \<Rightarrow> (Inr already, s)
      | None \<Rightarrow>
         (case find (\<lambda>r. ir_id r = requestId) (installationRequests (fst s)) of
            None \<Rightarrow> (Inr already, s)
          | Some installationRequest \<Rightarrow>
             (case find (\<lambda>p. prod_id p = ir_productId installationRequest) (products (fst s)) of
                None \<Rightarrow> (Inl (Thrown ''TypeError''), s)
              | Some product \<Rightarrow>
                  (Inr already,
                   repairSubscription e serviceRequestId requestId user successfulPayment
                     existingPayment installationRequest product s))))"

text \<open>Lines 1255-1292: the writes that create the subscription of a new payment.\<close>

definition createSubscription ::
  "env \<Rightarrow> string \<Rightarrow> string \<Rightarrow> string \<Rightarrow> SuccessfulPayment \<Rightarrow> InstallationRequest \<Rightarrow>
   Product \<Rightarrow> txstate \<Rightarrow> txstate" where
  "createSubscription e serviceRequestId requestId paymentId successfulPayment
     installationRequest product s =
     (let s1 = tx_write ''subscriptions''
                 (insert_subscription
                    (newSubscription e requestId installationRequest product successfulPayment
                       (env_now e) (Some (env_nextMonth e)) (Some (env_nextMonth e)))) s;
          s2 = tx_write ''payments''
                 (update_payments paymentId
                    (\<lambda>p. p\<lparr>pay_subscriptionId := Some (env_subscriptionId e)\<rparr>)) s1;
          s3 = tx_write ''installation_requests''
                 (update_installationRequests requestId
                    (\<lambda>r. r\<lparr>ir_connectId := Some (env_connectId e),
                           ir_updatedAt := env_now e\<rparr>)) s2
      in tx_write ''service_requests''
           (update_serviceRequests serviceRequestId
              (\<lambda>r. r\<lparr>sr_subscriptionId := Some (env_subscriptionId e)\<rparr>)) s3)"

text \<open>
  Lines 1240-1294: the subscription is created when the installation request has none.
  \<open>paymentId\<close> is the payment the subscription is linked to.
\<close>

definition ensureSubscription ::
  "env \<Rightarrow> string \<Rightarrow> string \<Rightarrow> string \<Rightarrow> SuccessfulPayment \<Rightarrow> txstate \<Rightarrow> error + txstate" where
  "ensureSubscription e serviceRequestId requestId paymentId successfulPayment s =
     (case find (\<lambda>x. sub_requestId x = requestId) (subscriptions (fst s)) of
        Some existingSubscription \<Rightarrow> Inr s
      | None \<Rightarrow>
         (case find (\<lambda>r. ir_id r = requestId) (installationRequests (fst s)) of
            None \<Rightarrow> Inr s
          | Some installationRequest \<Rightarrow>
             (case find (\<lambda>p. prod_id p = ir_productId installationRequest) (products (fst s)) of
                None \<Rightarrow> Inl (Thrown ''TypeError'')
              | Some product \<Rightarrow>
                  Inr (createSubscription e serviceRequestId requestId paymentId
                         successfulPayment installationRequest product s))))"

text \<open>Line 1207: \<^verbatim>\<open>existingPayment?.id || await generateId('payment')\<close>.\<close>

definition paymentIdFor :: "env \<Rightarrow> Payment option \<Rightarrow> string" where
  "paymentIdFor e existingPayment =
     (case existingPayment of
        None \<Rightarrow> env_paymentId e
      | Some p \<Rightarrow> if pay_id p = [] then env_paymentId e else pay_id p)"

text \<open>
  Lines 1210-1238: the payment is stored as completed, updated when \<open>existingPayment\<close> is a
  row and inserted otherwise.
\<close>

definition storePayment ::
  "env \<Rightarrow> string \<Rightarrow> string \<Rightarrow> SuccessfulPayment \<Rightarrow> Payment option \<Rightarrow> txstate \<Rightarrow> txstate" where
  "storePayment e requestId paymentId successfulPayment existingPayment s =
     (let details = sp_subscriptionDetails successfulPayment in
      case existingPayment of
        Some p \<Rightarrow>
          tx_write ''payments''
            (update_payments (pay_id p)
               (\<lambda>q. q\<lparr>pay_status := PAY_COMPLETED,
                      pay_razorpayPaymentId := Some (sp_id successfulPayment),
                      pay_razorpaySubscriptionId := Some (gs_id details),
                      pay_paymentMethod := sp_method successfulPayment,
                      pay_amount := Whole (sp_amount successfulPayment),
                      pay_paidDate := Some (env_now e),
                      pay_updatedAt := env_now e\<rparr>)) s
      | None \<Rightarrow>
          tx_write ''payments''
            (insert_payment
               \<lparr>pay_id = paymentId, pay_installationRequestId = Some requestId,
                pay_subscriptionId = None,
                pay_amount = Over100 (Whole (sp_amount successfulPayment)),
                pay_status = PAY_COMPLETED,
                pay_paymentMethod = sp_method successfulPayment,
                pay_razorpayPaymentId = Some (sp_id successfulPayment),
                pay_razorpaySubscriptionId = Some (gs_id details),
                pay_paidDate = Some (env_now e), pay_updatedAt = env_now e\<rparr>) s)"

text \<open>
  Lines 1296-1343: both requests are completed and the two audit entries written.
\<close>

definition completeRequests ::
  "env \<Rightarrow> string \<Rightarrow> string \<Rightarrow> string \<Rightarrow> actor \<Rightarrow> SuccessfulPayment \<Rightarrow> txstate \<Rightarrow> txstate" where
  "completeRequests e serviceRequestId requestId paymentId user successfulPayment s =
     (let details = sp_subscriptionDetails successfulPayment;
          s1 = tx_write ''installation_requests''
                 (update_installationRequests requestId
                    (\<lambda>r. r\<lparr>ir_status := INSTALLATION_COMPLETED,
                           ir_completedDate := Some (env_now e),
                           ir_updatedAt := env_now e,
                           ir_razorpaySubscriptionId := Some (gs_id details)\<rparr>)) s;
          s2 = tx_write ''service_requests''
                 (update_serviceRequests serviceRequestId
                    (\<lambda>r. r\<lparr>sr_status := COMPLETED,
                           sr_completedAt := Some (env_now e),
                           sr_updatedAt := env_now e,
                           sr_razorpaySubscriptionId := Some (gs_id details)\<rparr>)) s1;
          s3 = tx_write ''action_history''
                 (\<lambda>tx. logActionHistoryInTransaction tx
                          (payment_entry paymentId requestId successfulPayment user)) s2
      in tx_write ''action_history''
           (\<lambda>tx. logActionHistoryInTransaction tx
                    (completion_entry serviceRequestId paymentId user)) s3)"

text \<open>
  Lines 1206-1353: the payment is stored, the subscription ensured, the requests completed.
\<close>

definition newPaymentPath ::
  "env \<Rightarrow> string \<Rightarrow> string \<Rightarrow> actor \<Rightarrow> SuccessfulPayment \<Rightarrow> Payment option \<Rightarrow> txstate \<Rightarrow>
   (error + RefreshResult) \<times> txstate" where
  "newPaymentPath e serviceRequestId requestId user successfulPayment existingPayment s =
     (let paymentId = paymentIdFor e existingPayment;
          s1 = storePayment e requestId paymentId successfulPayment existingPayment s
      in case ensureSubscription e serviceRequestId requestId paymentId successfulPayment s1 of
           Inl err \<Rightarrow> (Inl err, s1)
         | Inr s2 \<Rightarrow>
             (Inr \<lparr>rr_message = ''Payment verified and installation completed'',
                   rr_paymentStatus = ''COMPLETED'',
                   rr_paymentDetails = Some \<lparr>pd_method = sp_method successfulPayment,
                     pd_amount = Over100 (Whole (sp_amount successfulPayment)),
                     pd_transactionId = Some (sp_id successfulPayment)\<rparr>\<rparr>,
              completeRequests e serviceRequestId requestId paymentId user successfulPayment s2))"

text \<open>The \<^verbatim>\<open>try\<close> block of the transaction callback (lines 1056-1360).\<close>

definition refreshTry ::
  "gateway \<Rightarrow> env \<Rightarrow> ServiceRequest \<Rightarrow> InstallationRequest \<Rightarrow> string \<Rightarrow> string \<Rightarrow> actor \<Rightarrow>
   txstate \<Rightarrow> (error + RefreshResult) \<times> txstate" where
  "refreshTry gw e serviceRequest installationRequest serviceRequestId requestId user s =
     (case findSuccessfulPayment gw serviceRequest installationRequest s of
        (Inl err, s1) \<Rightarrow> (Inl err, s1)
      | (Inr None, s1) \<Rightarrow>
          (Inr \<lparr>rr_message = ''Payment not yet received'', rr_paymentStatus = ''PENDING'',
                rr_paymentDetails = None\<rparr>, s1)
      | (Inr (Some successfulPayment), s1) \<Rightarrow>
         (let existingPayment =
                find (\<lambda>p. pay_installationRequestId p = Some requestId \<and>
                          pay_razorpayPaymentId p = Some (sp_id successfulPayment) \<and>
                          pay_status p = PAY_COMPLETED) (payments (fst s1)) in
          case existingPayment of
            Some p \<Rightarrow>
              if pay_status p = PAY_COMPLETED
              then completedPaymentPath e serviceRequestId requestId user successfulPayment p s1
              else newPaymentPath e serviceRequestId requestId user successfulPayment
                     existingPayment s1
          | None \<Rightarrow>
              newPaymentPath e serviceRequestId requestId user successfulPayment
                existingPayment s1))"

text \<open>The \<^verbatim>\<open>catch\<close> of lines 1362-1365 replaces whatever was thrown.\<close>

definition refreshCallback ::
  "gateway \<Rightarrow> env \<Rightarrow> ServiceRequest \<Rightarrow> InstallationRequest \<Rightarrow> string \<Rightarrow> string \<Rightarrow> actor \<Rightarrow>
   txstate \<Rightarrow> (error + RefreshResult) \<times> txstate" where
  "refreshCallback gw e serviceRequest installationRequest serviceRequestId requestId user s =
     (case refreshTry gw e serviceRequest installationRequest serviceRequestId requestId user s of
        (Inl err, s1) \<Rightarrow> (Inl (BadRequest ''Failed to refresh payment status from Razorpay''), s1)
      | (Inr v, s1) \<Rightarrow> (Inr v, s1))"

text \<open>
  The operation returns the value or the error thrown, the committed state after it and
  its events. Reading \<^verbatim>\<open>razorpaySubscriptionId\<close> of a missing installation request throws.
\<close>

definition refreshPaymentStatus ::
  "gateway \<Rightarrow> env \<Rightarrow> database \<Rightarrow> string \<Rightarrow> actor \<Rightarrow>
   (error + RefreshResult) \<times> database \<times> event list" where
  "refreshPaymentStatus gw e db serviceRequestId user =
     (case getServiceRequestById db serviceRequestId of
        Inl err \<Rightarrow> (Inl err, db, [])
      | Inr None \<Rightarrow> (Inl (NotFound ''Service Request''), db, [])
      | Inr (Some view) \<Rightarrow>
         (let serviceRequest = v_row view in
          case sr_installationRequestId serviceRequest of
            None \<Rightarrow>
              (Inl (BadRequest ''This service request is not linked to an installation''), db, [])
          | Some requestId \<Rightarrow>
              if requestId = []
              then (Inl (BadRequest ''This service request is not linked to an installation''),
                    db, [])
              else if srStatusValue (sr_status serviceRequest) \<noteq> irStatusValue IR_PAYMENT_PENDING
              then (Inl (BadRequest ''Installation must be in payment pending state''), db, [])
              else
               (case find (\<lambda>r. ir_id r = requestId) (installationRequests db) of
                  None \<Rightarrow> (Inl (Thrown ''TypeError''), db, [])
                | Some installationRequest \<Rightarrow>
                    if \<not> truthy (ir_razorpaySubscriptionId installationRequest)
                    then (Inl (BadRequest ''No payment subscription found for this request''),
                          db, [])
                    else tracedTransaction db
                           (refreshCallback gw e serviceRequest installationRequest
                              serviceRequestId requestId user))))"

section \<open>Example states\<close>

text \<open>Concrete callers, payloads, rows and stores, used where a theorem is run on an input.\<close>

definition agent1 :: actor where
  "agent1 = \<lparr>userId = ''agent1'', role = SERVICE_AGENT, name = Text ''Asha'', phone = Undefined\<rparr>"

definition admin1 :: actor where
  "admin1 = \<lparr>userId = ''admin1'', role = ADMIN, name = Null, phone = Text ''900''\<rparr>"

definition noFaults :: faults where
  "noFaults = (\<lambda>w. False)"

definition failAt :: "write_point \<Rightarrow> faults" where
  "failAt w = (\<lambda>w'. w' = w)"

definition noData :: StatusUpdateData where
  "noData = \<lparr>agentId = None, completedAt = None, scheduledDate = None, beforeImages = None,
             afterImages = None, images = None\<rparr>"

definition afterData :: StatusUpdateData where
  "afterData = noData\<lparr>afterImages := Some [''u1'']\<rparr>"

definition bothData :: StatusUpdateData where
  "bothData = noData\<lparr>afterImages := Some [''u1''], beforeImages := Some [''u2'']\<rparr>"

text \<open>
  A general request of customer \<open>cust1\<close>, assigned to \<open>agent1\<close>, with stored images: its
  status, its payment flag and its subscription are the parameters.
\<close>

definition generalRequest :: "ServiceRequestStatus \<Rightarrow> bool \<Rightarrow> string option \<Rightarrow> ServiceRequest" where
  "generalRequest st pay sub =
     \<lparr>sr_id = ''srq1'', sr_subscriptionId = sub, sr_customerId = ''cust1'',
      sr_productId = ''prod1'', sr_installationRequestId = None, sr_type = ''GENERAL'',
      sr_description = ''filter change'', sr_images = None, sr_status = st, sr_assignedToId = Some ''agent1'',
      sr_franchiseId = ''fr1'', sr_scheduledDate = Some ''2025-01-02'', sr_completedDate = None,
      sr_completedAt = None, sr_beforeImages = Some [''b0''], sr_afterImages = Some [''a0''],
      sr_requirePayment = pay, sr_razorpaySubscriptionId = None,
      sr_createdAt = ''2025-01-01'', sr_updatedAt = ''2025-01-01''\<rparr>"

definition product1 :: Product where
  "product1 = \<lparr>prod_id = ''prod1'', prod_name = ''Aqua'', prod_images = None,
                prod_rentPrice = 300, prod_deposit = 1000, prod_buyPrice = 9000\<rparr>"

definition installation1 :: "InstallationRequestStatus \<Rightarrow> InstallationRequest" where
  "installation1 st =
     \<lparr>ir_id = ''inst1'', ir_customerId = ''cust1'', ir_productId = ''prod1'',
      ir_franchiseId = ''fr1'', ir_orderType = ''RENTAL'', ir_status = st,
      ir_assignedTechnicianId = None,
      ir_connectId = None, ir_razorpaySubscriptionId = Some ''rzp_sub1'',
      ir_razorpayPaymentLink = Some ''https://rzp.io/l/1'', ir_completedDate = None,
      ir_updatedAt = ''2025-01-01''\<rparr>"

text \<open>The installation service request of \<open>inst1\<close>, waiting for its payment.\<close>

definition installationRequest1 :: ServiceRequest where
  "installationRequest1 =
     \<lparr>sr_id = ''srq9'', sr_subscriptionId = None, sr_customerId = ''cust1'',
      sr_productId = ''prod1'', sr_installationRequestId = Some ''inst1'',
      sr_type = ''installation'', sr_description = ''install'', sr_images = None,
      sr_status = PAYMENT_PENDING,
      sr_assignedToId = Some ''agent1'', sr_franchiseId = ''fr1'', sr_scheduledDate = None,
      sr_completedDate = None, sr_completedAt = None, sr_beforeImages = Some [''b0''],
      sr_afterImages = Some [''a0''], sr_requirePayment = True,
      sr_razorpaySubscriptionId = None, sr_createdAt = ''2025-01-01'',
      sr_updatedAt = ''2025-01-01''\<rparr>"

definition store :: "ServiceRequest list \<Rightarrow> InstallationRequest list \<Rightarrow> database" where
  "store rs irs =
     \<lparr>serviceRequests = rs, installationRequests = irs, payments = [], subscriptions = [],
      products = [product1], users = [], franchises = [], actionHistory = []\<rparr>"

text \<open>
  The same request with a status and a payment flag of choice, and a store without product
  rows, where the installation request \<open>inst1\<close> names a product that is not stored.
\<close>

definition installationRequest2 :: "ServiceRequestStatus \<Rightarrow> bool \<Rightarrow> ServiceRequest" where
  "installationRequest2 st pay = installationRequest1\<lparr>sr_status := st, sr_requirePayment := pay\<rparr>"

definition storeWithoutProducts :: "ServiceRequest list \<Rightarrow> InstallationRequest list \<Rightarrow> database" where
  "storeWithoutProducts rs irs = (store rs irs)\<lparr>products := []\<rparr>"

definition env1 :: env where
  "env1 = \<lparr>env_now = ''2025-02-01'', env_serviceRequestId = ''srq_new1'',
           env_paymentId = ''payment_new1'', env_subscriptionId = ''sub_new1'',
           env_connectId = ''CONNECT1'', env_nextMonth = ''2025-03-01'',
           env_isoOfSeconds = (\<lambda>n. ''2025-02-01'')\<rparr>"

definition env2 :: env where
  "env2 = \<lparr>env_now = ''2025-02-02'', env_serviceRequestId = ''srq_new2'',
           env_paymentId = ''payment_new2'', env_subscriptionId = ''sub_new2'',
           env_connectId = ''CONNECT2'', env_nextMonth = ''2025-03-02'',
           env_isoOfSeconds = (\<lambda>n. ''2025-02-02'')\<rparr>"

text \<open>A gateway that reports an active subscription with one paid invoice.\<close>

definition paidGateway :: gateway where
  "paidGateway =
     \<lparr>subscriptions_fetch = (\<lambda>sid. Inr \<lparr>gs_id = sid, gs_status = ''active'',
                                           gs_current_start = None, gs_current_end = None\<rparr>),
      invoices_all = (\<lambda>sid. Inr [\<lparr>inv_status = ''paid'', inv_payment_id = ''pay_rzp1'',
                                    inv_amount = 100000\<rparr>])\<rparr>"

definition unassignedData :: InstallationServiceRequestData where
  "unassignedData = \<lparr>c_installationRequestId = ''inst1'', c_assignedToId = None,
                      c_scheduledDate = None, c_description = ''install''\<rparr>"

section \<open>Observations on a run of payment reconciliation\<close>

fun gatewayEvent :: "event \<Rightarrow> bool" where
  "gatewayEvent (GatewayFetchSubscription s) = True"
| "gatewayEvent (GatewayListInvoices s) = True"
| "gatewayEvent ev = False"

fun writeEvent :: "event \<Rightarrow> bool" where
  "writeEvent (DbWrite t) = True"
| "writeEvent ev = False"

text \<open>
  The events between the opening and the closing of a transaction are calls to the gateway
  followed by writes only: once a write has happened, the gateway is not called again.
\<close>

definition gatewayReadsBeforeWrites :: "event list \<Rightarrow> bool" where
  "gatewayReadsBeforeWrites evs = list_all writeEvent (dropWhile gatewayEvent evs)"

text \<open>
  The completed payments stored for an installation request and a gateway payment id, and
  the subscriptions of an installation request.
\<close>

definition completedPayments :: "string \<Rightarrow> string \<Rightarrow> database \<Rightarrow> Payment list" where
  "completedPayments requestId gatewayPaymentId db =
     filter (\<lambda>p. pay_installationRequestId p = Some requestId \<and>
                 pay_razorpayPaymentId p = Some gatewayPaymentId \<and>
                 pay_status p = PAY_COMPLETED) (payments db)"

definition subscriptionsOf :: "string \<Rightarrow> database \<Rightarrow> Subscription list" where
  "subscriptionsOf requestId db = filter (\<lambda>x. sub_requestId x = requestId) (subscriptions db)"

section \<open>What a committed status transition appends to the action history\<close>

text \<open>
  The entry of the synchronizer, present when the request is installation-linked and the
  target status is one the synchronizer maps.
\<close>

definition syncEntries ::
  "ServiceRequest \<Rightarrow> ServiceRequestStatus \<Rightarrow> actor \<Rightarrow> ActionHistoryEntry list" where
  "syncEntries r st user =
     (case sr_installationRequestId r of
        None \<Rightarrow> []
      | Some k \<Rightarrow>
          if k = [] then []
          else (case sync_switch st of None \<Rightarrow> [] | Some (s, a) \<Rightarrow> [sync_entry k a st user]))"

text \<open>The entry against the subscription, present when the request is subscription-linked.\<close>

definition subscriptionEntries ::
  "ServiceRequest \<Rightarrow> string \<Rightarrow> ServiceRequestStatus \<Rightarrow> actor \<Rightarrow> ActionHistoryEntry list" where
  "subscriptionEntries r i st user =
     (case sr_subscriptionId r of
        None \<Rightarrow> []
      | Some k \<Rightarrow> if k = [] then [] else [subscription_entry i k st user])"

text \<open>The entries of a list that are about one entity.\<close>

definition entriesFor :: "string \<Rightarrow> string \<Rightarrow> ActionHistoryEntry list \<Rightarrow> ActionHistoryEntry list" where
  "entriesFor entityType entityId es =
     filter (\<lambda>e. ah_entityType e = Some entityType \<and> ah_entityId e = Some entityId) es"

text \<open>The entries a call has added: those of \<open>db'\<close> past the ones of \<open>db\<close>.\<close>

definition newEntries :: "database \<Rightarrow> database \<Rightarrow> ActionHistoryEntry list" where
  "newEntries db db' = drop (length (actionHistory db)) (actionHistory db')"

section \<open>Lemmas on the store and on transactions\<close>

lemma find_map_update:
  assumes "\<And>x. key (f x) = key x"
  shows "find (\<lambda>x. key x = i) (map (\<lambda>x. if key x = i then f x else x) xs) =
         map_option f (find (\<lambda>x. key x = i) xs)"
  by (induction xs) (simp_all add: assms)

text \<open>The lookup returns the representation of the stored row, or throws, or finds no row.\<close>

lemma lookup_row:
  "getServiceRequestById db i = Inr (Some view) \<Longrightarrow> findServiceRequest db i = Some (v_row view)"
  by (auto simp: getServiceRequestById_def viewOf_def split: option.splits sum.splits)

lemma lookup_found:
  assumes "findServiceRequest db i = Some r"
  shows "(\<exists>e. getServiceRequestById db i = Inl e) \<or>
         (\<exists>view. getServiceRequestById db i = Inr (Some view) \<and> v_row view = r)"
  using assms
  by (auto simp: getServiceRequestById_def viewOf_def split: option.splits sum.splits)

text \<open>
  The lookup throws exactly for a request of type \<^verbatim>\<open>'installation'\<close> whose installation request
  is in status PAYMENT_PENDING and names a product that is not stored.
\<close>

lemma lookup_throws:
  "getServiceRequestById db i = Inl e \<longleftrightarrow>
   (\<exists>r ir. findServiceRequest db i = Some r \<and> sr_type r = ''installation'' \<and>
      truthy (sr_installationRequestId r) \<and>
      find (\<lambda>x. Some (ir_id x) = sr_installationRequestId r) (installationRequests db) = Some ir \<and>
      ir_status ir = IR_PAYMENT_PENDING \<and>
      find (\<lambda>p. prod_id p = ir_productId ir) (products db) = None \<and>
      e = Thrown ''TypeError'')"
proof -
  have st: "irStatusValue s = ''PAYMENT_PENDING'' \<longleftrightarrow> s = IR_PAYMENT_PENDING" for s
    by (cases s) simp_all
  show ?thesis
    by (auto simp: getServiceRequestById_def paymentStatusOf_def st Let_def
        split: option.splits sum.splits if_splits)
qed

lemma attempt_Inr: "attempt fails w x = Inr y \<longleftrightarrow> \<not> fails w \<and> y = x"
  by (auto simp: attempt_def)

lemma andThen_Inr: "andThen r f = Inr y \<longleftrightarrow> (\<exists>x. r = Inr x \<and> f x = Inr y)"
  by (cases r) (simp_all add: andThen_def)

lemma transaction_Inr:
  "transaction db body = (Inr v, db') \<longleftrightarrow> body db = Inr (v, db')"
  by (auto simp: transaction_def split: sum.splits prod.splits)

lemma transaction_Inl:
  "transaction db body = (Inl e, db') \<Longrightarrow> db' = db"
  by (auto simp: transaction_def split: sum.splits prod.splits)

lemma sync_result:
  assumes "syncInstallationRequestStatusInTransaction fails tx k st user = Inr tx'"
  shows "serviceRequests tx' = serviceRequests tx \<and>
         actionHistory tx' = actionHistory tx @
           (case sync_switch st of None \<Rightarrow> [] | Some (s, a) \<Rightarrow> [sync_entry k a st user])"
  using assms
  by (auto simp: syncInstallationRequestStatusInTransaction_def andThen_Inr attempt_Inr
        update_installationRequests_def logActionHistoryInTransaction_def logActionHistory_def
      split: option.splits)

lemma statusTransaction_result:
  assumes "statusTransaction fails db i st user data r u tx = Inr (v, tx')"
  shows "serviceRequests tx' =
           map (\<lambda>x. if sr_id x = i then set_serviceRequest u x else x) (serviceRequests tx) \<and>
         actionHistory tx' = actionHistory tx @ syncEntries r st user @
           [status_entry i (sr_status r) st user data] @ subscriptionEntries r i st user"
proof -
  from assms obtain tx1 tx2 tx3 tx4 where
    s1: "tx1 = update_serviceRequests i (set_serviceRequest u) tx"
    and s2: "(case sr_installationRequestId r of None \<Rightarrow> Inr tx1
              | Some k \<Rightarrow> if k = [] then Inr tx1
                  else syncInstallationRequestStatusInTransaction fails tx1 k st user) = Inr tx2"
    and s3: "tx3 = logActionHistoryInTransaction tx2 (status_entry i (sr_status r) st user data)"
    and s4: "(case sr_subscriptionId r of None \<Rightarrow> Inr tx3
              | Some k \<Rightarrow> if k = [] then Inr tx3
                  else attempt fails LogSubscription
                         (logActionHistoryInTransaction tx3 (subscription_entry i k st user))) = Inr tx4"
    and s5: "tx' = tx4"
    unfolding statusTransaction_def andThen_Inr attempt_Inr by auto
  have a1: "serviceRequests tx1 =
      map (\<lambda>x. if sr_id x = i then set_serviceRequest u x else x) (serviceRequests tx)"
    "actionHistory tx1 = actionHistory tx"
    by (simp_all add: s1 update_serviceRequests_def)
  have a2: "serviceRequests tx2 = serviceRequests tx1"
    "actionHistory tx2 = actionHistory tx1 @ syncEntries r st user"
    using s2 sync_result [of fails tx1 _ st user tx2]
    by (auto simp: syncEntries_def split: option.splits if_splits)
  have a3: "serviceRequests tx3 = serviceRequests tx2"
    "actionHistory tx3 = actionHistory tx2 @ [status_entry i (sr_status r) st user data]"
    by (simp_all add: s3 logActionHistoryInTransaction_def logActionHistory_def)
  have a4: "serviceRequests tx4 = serviceRequests tx3"
    "actionHistory tx4 = actionHistory tx3 @ subscriptionEntries r i st user"
    using s4
    by (auto simp: subscriptionEntries_def attempt_Inr logActionHistoryInTransaction_def
          logActionHistory_def split: option.splits if_splits)
  show ?thesis by (simp add: s5 a1 a2 a3 a4)
qed

text \<open>A call that returns has run the transaction on the row the lookup returned.\<close>

lemma update_ran:
  assumes "findServiceRequest db i = Some r"
    and "updateServiceRequestStatus fails now db i st user data = (Inr v, db')"
  shows "statusTransaction fails db i st user data r (buildUpdateData now st data) db = Inr (v, db')"
proof -
  from lookup_found [OF assms(1)] assms(2)
  obtain view where look: "getServiceRequestById db i = Inr (Some view)" and row: "v_row view = r"
    by (auto simp: updateServiceRequestStatus_def)
  note run = assms(2) [unfolded updateServiceRequestStatus_def look sum.case option.case Let_def row]
  then show ?thesis
    by (auto simp: transaction_Inr split: if_splits option.splits)
qed

text \<open>A call that returns has passed both checks and committed exactly these writes.\<close>

lemma update_committed:
  assumes "findServiceRequest db i = Some r"
    and "updateServiceRequestStatus fails now db i st user data = (Inr v, db')"
  shows "st \<in> set (validTransitions (sr_status r))"
    and "validate db r data st = None"
    and "serviceRequests db' =
           map (\<lambda>x. if sr_id x = i then set_serviceRequest (buildUpdateData now st data) x else x)
             (serviceRequests db)"
    and "actionHistory db' = actionHistory db @ syncEntries r st user @
           [status_entry i (sr_status r) st user data] @ subscriptionEntries r i st user"
proof -
  from lookup_found [OF assms(1)] assms(2)
  obtain view where look: "getServiceRequestById db i = Inr (Some view)" and row: "v_row view = r"
    by (auto simp: updateServiceRequestStatus_def)
  note run = assms(2) [unfolded updateServiceRequestStatus_def look sum.case option.case Let_def row]
  show v1: "st \<in> set (validTransitions (sr_status r))"
    using run by (auto split: if_splits)
  show v2: "validate db r data st = None"
    using run v1 by (auto split: option.splits)
  have "statusTransaction fails db i st user data r (buildUpdateData now st data) db = Inr (v, db')"
    using run v1 v2 by (simp add: transaction_Inr)
  from statusTransaction_result [OF this]
  show "serviceRequests db' =
           map (\<lambda>x. if sr_id x = i then set_serviceRequest (buildUpdateData now st data) x else x)
             (serviceRequests db)"
    and "actionHistory db' = actionHistory db @ syncEntries r st user @
           [status_entry i (sr_status r) st user data] @ subscriptionEntries r i st user"
    by simp_all
qed

text \<open>A call that throws leaves the committed state as it was.\<close>

lemma update_rolled_back:
  assumes "updateServiceRequestStatus fails now db i st user data = (Inl e, db')"
  shows "db' = db"
  using assms
  by (auto simp: updateServiceRequestStatus_def Let_def
      split: sum.splits option.splits if_splits dest: transaction_Inl)


section \<open>Invalid transitions\<close>




text \<open>The definitions a run of \<open>updateServiceRequestStatus\<close> on a concrete input unfolds.\<close>

lemmas run_defs =
  updateServiceRequestStatus_def getServiceRequestById_def paymentStatusOf_def viewOf_def
  findServiceRequest_def store_def generalRequest_def
  transaction_def statusTransaction_def andThen_def attempt_def noFaults_def failAt_def
  buildUpdateData_def storeImages_def set_serviceRequest_def update_serviceRequests_def
  logActionHistoryInTransaction_def logActionHistory_def noData_def afterData_def bothData_def
  agent1_def Let_def

text \<open>The definitions a run on the store without product rows unfolds.\<close>

lemmas orphan_defs =
  updateServiceRequestStatus_def getServiceRequestById_def paymentStatusOf_def
  findServiceRequest_def storeWithoutProducts_def store_def installationRequest2_def
  installationRequest1_def installation1_def

section \<open>Completion of a request that requires payment\<close>



text \<open>
  It fails also where the lookup throws: the request requires payment and is IN_PROGRESS,
  its installation request is in status PAYMENT_PENDING with no stored product, and the
  error is the TypeError of line 149.
\<close>

lemma completion_lookup_throws:
  "sr_requirePayment (installationRequest2 IN_PROGRESS True) \<and>
   sr_status (installationRequest2 IN_PROGRESS True) = IN_PROGRESS \<and>
   findServiceRequest (storeWithoutProducts [installationRequest2 IN_PROGRESS True] [installation1 IR_PAYMENT_PENDING]) ''srq9'' = Some (installationRequest2 IN_PROGRESS True) \<and>
   updateServiceRequestStatus noFaults ''t1'' (storeWithoutProducts [installationRequest2 IN_PROGRESS True] [installation1 IR_PAYMENT_PENDING]) ''srq9'' COMPLETED agent1 afterData =
   (Inl (Thrown ''TypeError''), storeWithoutProducts [installationRequest2 IN_PROGRESS True] [installation1 IR_PAYMENT_PENDING])"
  by (simp add: orphan_defs)


section \<open>The transition to PAYMENT_PENDING\<close>




section \<open>Images\<close>

lemma images_after_set:
  "sr_beforeImages (set_serviceRequest (buildUpdateData now st data) r) =
     (if st = IN_PROGRESS
      then (if hasImages (beforeImages data) then beforeImages data
            else if hasImages (afterImages data) then afterImages data
            else sr_beforeImages r)
      else if st = CANCELLED then None else sr_beforeImages r)"
  "sr_afterImages (set_serviceRequest (buildUpdateData now st data) r) =
     (if st = IN_PROGRESS then sr_afterImages r
      else if hasImages (beforeImages data) then beforeImages data
      else if hasImages (afterImages data) then afterImages data
      else if st = CANCELLED then None else sr_afterImages r)"
  "sr_status (set_serviceRequest (buildUpdateData now st data) r) = st"
  by (simp_all add: set_serviceRequest_def buildUpdateData_def storeImages_def Let_def)

lemma updated_row:
  assumes "findServiceRequest db i = Some r"
    and "updateServiceRequestStatus fails now db i st user data = (Inr v, db')"
  shows "findServiceRequest db' i = Some (set_serviceRequest (buildUpdateData now st data) r)"
proof -
  have "sr_id (set_serviceRequest u x) = sr_id x" for u x
    by (simp add: set_serviceRequest_def)
  then show ?thesis
    using assms(1) update_committed(3) [OF assms]
    by (simp add: findServiceRequest_def find_map_update [where key = sr_id])
qed

text \<open>
  C7, as amended. A transition to CANCELLED that returns stores null in \<open>beforeImages\<close>,
  whatever the column held; \<open>afterImages\<close> is null as well unless the payload carries a
  non-empty image array, in which case it holds that array (\<open>beforeImages\<close> of the payload
  if non-empty, else its \<open>afterImages\<close>).
\<close>

theorem cancellation_clears_images:
  assumes "findServiceRequest db i = Some r"
    and "updateServiceRequestStatus fails now db i CANCELLED user data = (Inr v, db')"
  shows "map_option sr_status (findServiceRequest db' i) = Some CANCELLED \<and>
         map_option sr_beforeImages (findServiceRequest db' i) = Some None \<and>
         map_option sr_afterImages (findServiceRequest db' i) =
           Some (if hasImages (beforeImages data) then beforeImages data
                 else if hasImages (afterImages data) then afterImages data
                 else None)"
  by (simp add: updated_row [OF assms] images_after_set)

text \<open>
  The claim as stated fails for a payload with images: cancelling with
  \<open>afterImages = [u1]\<close> returns and leaves \<open>[u1]\<close> in the \<open>afterImages\<close> column.
\<close>

theorem cancellation_keeps_payload_images_counterexample:
  "returned (fst (updateServiceRequestStatus noFaults ''t1''
          (store [generalRequest IN_PROGRESS True None] []) ''srq1'' CANCELLED agent1 afterData)) \<and>
   map sr_afterImages (serviceRequests (snd (updateServiceRequestStatus noFaults ''t1''
          (store [generalRequest IN_PROGRESS True None] []) ''srq1'' CANCELLED agent1 afterData))) =
     [Some [''u1'']]"
  by (simp add: run_defs)

theorem cancellation_clears_images_witness:
  "map_option sr_status (findServiceRequest
      (snd (updateServiceRequestStatus noFaults ''t1''
         (store [generalRequest IN_PROGRESS True None] []) ''srq1'' CANCELLED agent1 noData))
      ''srq1'') = Some CANCELLED \<and>
   map_option sr_beforeImages (findServiceRequest
      (snd (updateServiceRequestStatus noFaults ''t1''
         (store [generalRequest IN_PROGRESS True None] []) ''srq1'' CANCELLED agent1 noData))
      ''srq1'') = Some None \<and>
   map_option sr_afterImages (findServiceRequest
      (snd (updateServiceRequestStatus noFaults ''t1''
         (store [generalRequest IN_PROGRESS True None] []) ''srq1'' CANCELLED agent1 noData))
      ''srq1'') = Some None \<and>
   sr_beforeImages (generalRequest IN_PROGRESS True None) = Some [''b0''] \<and>
   sr_afterImages (generalRequest IN_PROGRESS True None) = Some [''a0'']"
proof -
  have found: "findServiceRequest (store [generalRequest IN_PROGRESS True None] []) ''srq1'' =
      Some (generalRequest IN_PROGRESS True None)"
    by (simp add: findServiceRequest_def store_def generalRequest_def)
  have ran: "fst (updateServiceRequestStatus noFaults ''t1''
         (store [generalRequest IN_PROGRESS True None] []) ''srq1'' CANCELLED agent1 noData) =
      Inr (Some (viewOf (store [generalRequest IN_PROGRESS True None] []) (generalRequest IN_PROGRESS True None) None))"
    by (simp add: run_defs)
  have prior: "sr_beforeImages (generalRequest IN_PROGRESS True None) = Some [''b0''] \<and>
      sr_afterImages (generalRequest IN_PROGRESS True None) = Some [''a0'']"
    by (simp add: generalRequest_def)
  show ?thesis
    using cancellation_clears_images [OF found, of noFaults "''t1''" agent1 noData
        "Some (viewOf (store [generalRequest IN_PROGRESS True None] []) (generalRequest IN_PROGRESS True None) None)"
        "snd (updateServiceRequestStatus noFaults ''t1''
           (store [generalRequest IN_PROGRESS True None] []) ''srq1'' CANCELLED agent1 noData)"]
      ran prior
    by (simp add: prod_eq_iff noData_def)
qed

text \<open>
  C10. In a call of \<open>updateServiceRequestStatus\<close> that returns, the column that receives
  the payload's images is chosen by the target status: for IN_PROGRESS it is \<open>beforeImages\<close>
  (a payload \<open>afterImages\<close> array lands there when the payload has no non-empty
  \<open>beforeImages\<close>), for any other target it is \<open>afterImages\<close> (a payload \<open>beforeImages\<close> array
  lands there). When both payload arrays are non-empty, \<open>beforeImages\<close>, applied last, wins.
  The other image column keeps its value, null on cancellation.
\<close>

theorem image_destination_by_target_status:
  assumes "findServiceRequest db i = Some r"
    and "updateServiceRequestStatus fails now db i st user data = (Inr v, db')"
  shows "map_option sr_beforeImages (findServiceRequest db' i) =
           Some (if st = IN_PROGRESS
                 then (if hasImages (beforeImages data) then beforeImages data
                       else if hasImages (afterImages data) then afterImages data
                       else sr_beforeImages r)
                 else if st = CANCELLED then None else sr_beforeImages r) \<and>
         map_option sr_afterImages (findServiceRequest db' i) =
           Some (if st = IN_PROGRESS then sr_afterImages r
                 else if hasImages (beforeImages data) then beforeImages data
                 else if hasImages (afterImages data) then afterImages data
                 else if st = CANCELLED then None else sr_afterImages r)"
  by (simp add: updated_row [OF assms] images_after_set)

theorem image_destination_by_target_status_witness:
  "map_option sr_beforeImages (findServiceRequest
      (snd (updateServiceRequestStatus noFaults ''t1''
         (store [generalRequest SCHEDULED False None] []) ''srq1'' IN_PROGRESS agent1 afterData))
      ''srq1'') = Some (Some [''u1'']) \<and>
   map_option sr_afterImages (findServiceRequest
      (snd (updateServiceRequestStatus noFaults ''t1''
         (store [generalRequest SCHEDULED False None] []) ''srq1'' IN_PROGRESS agent1 afterData))
      ''srq1'') = Some (Some [''a0'']) \<and>
   map_option sr_afterImages (findServiceRequest
      (snd (updateServiceRequestStatus noFaults ''t1''
         (store [generalRequest IN_PROGRESS False None] []) ''srq1'' COMPLETED agent1 bothData))
      ''srq1'') = Some (Some [''u2'']) \<and>
   map_option sr_beforeImages (findServiceRequest
      (snd (updateServiceRequestStatus noFaults ''t1''
         (store [generalRequest IN_PROGRESS False None] []) ''srq1'' COMPLETED agent1 bothData))
      ''srq1'') = Some (Some [''b0''])"
proof -
  have found: "findServiceRequest (store [generalRequest c False None] []) ''srq1'' =
      Some (generalRequest c False None)" for c
    by (simp add: findServiceRequest_def store_def generalRequest_def)
  have ran1: "fst (updateServiceRequestStatus noFaults ''t1''
         (store [generalRequest SCHEDULED False None] []) ''srq1'' IN_PROGRESS agent1 afterData) =
      Inr (Some (viewOf (store [generalRequest SCHEDULED False None] []) (generalRequest SCHEDULED False None) None))"
    by (simp add: run_defs)
  have ran2: "fst (updateServiceRequestStatus noFaults ''t1''
         (store [generalRequest IN_PROGRESS False None] []) ''srq1'' COMPLETED agent1 bothData) =
      Inr (Some (viewOf (store [generalRequest IN_PROGRESS False None] []) (generalRequest IN_PROGRESS False None) None))"
    by (simp add: run_defs)
  have prior: "sr_afterImages (generalRequest c False None) = Some [''a0'']"
    "sr_beforeImages (generalRequest c False None) = Some [''b0'']" for c
    by (simp_all add: generalRequest_def)
  show ?thesis
    using image_destination_by_target_status [OF found [of SCHEDULED], of noFaults "''t1''"
        IN_PROGRESS agent1 afterData "Some (viewOf (store [generalRequest SCHEDULED False None] []) (generalRequest SCHEDULED False None) None)"
        "snd (updateServiceRequestStatus noFaults ''t1''
           (store [generalRequest SCHEDULED False None] []) ''srq1'' IN_PROGRESS agent1 afterData)"]
      image_destination_by_target_status [OF found [of IN_PROGRESS], of noFaults "''t1''"
        COMPLETED agent1 bothData "Some (viewOf (store [generalRequest IN_PROGRESS False None] []) (generalRequest IN_PROGRESS False None) None)"
        "snd (updateServiceRequestStatus noFaults ''t1''
           (store [generalRequest IN_PROGRESS False None] []) ''srq1'' COMPLETED agent1 bothData)"]
      ran1 ran2 prior
    by (simp add: prod_eq_iff afterData_def bothData_def noData_def)
qed

section \<open>Audit entries and atomicity of a status transition\<close>

lemma statusTransaction_no_fault:
  assumes "statusTransaction fails db i st user data r u tx = Inr (v, tx')"
  shows "\<not> fails UpdateServiceRequest \<and> \<not> fails LogServiceRequest \<and>
         (truthy (sr_subscriptionId r) \<longrightarrow> \<not> fails LogSubscription) \<and>
         (truthy (sr_installationRequestId r) \<and> sync_switch st \<noteq> None \<longrightarrow>
            \<not> fails SyncUpdateInstallation \<and> \<not> fails SyncLog)"
proof -
  from assms obtain tx1 tx2 tx3 tx4 where
    s1: "\<not> fails UpdateServiceRequest"
    and s2: "(case sr_installationRequestId r of None \<Rightarrow> Inr tx1
              | Some k \<Rightarrow> if k = [] then Inr tx1
                  else syncInstallationRequestStatusInTransaction fails tx1 k st user) = Inr tx2"
    and s3: "\<not> fails LogServiceRequest"
    and s4: "(case sr_subscriptionId r of None \<Rightarrow> Inr tx3
              | Some k \<Rightarrow> if k = [] then Inr tx3
                  else attempt fails LogSubscription
                         (logActionHistoryInTransaction tx3 (subscription_entry i k st user))) = Inr tx4"
    unfolding statusTransaction_def andThen_Inr attempt_Inr by auto
  have a2: "\<not> fails SyncUpdateInstallation \<and> \<not> fails SyncLog"
    if "truthy (sr_installationRequestId r)" "sync_switch st \<noteq> None"
    using s2 that
    by (cases "sr_installationRequestId r")
       (auto simp: syncInstallationRequestStatusInTransaction_def andThen_Inr attempt_Inr
          split: if_splits)
  have a4: "\<not> fails LogSubscription" if "truthy (sr_subscriptionId r)"
    using s4 that by (cases "sr_subscriptionId r") (auto simp: attempt_Inr split: if_splits)
  show ?thesis using s1 s3 a2 a4 by simp
qed

lemma new_entries_counted:
  "length (entriesFor ''service_request'' i
     (syncEntries r st user @ [status_entry i cur st user data] @ subscriptionEntries r i st user)) = 1"
  "length (filter (\<lambda>e. ah_entityType e = Some ''subscription'')
     (syncEntries r st user @ [status_entry i cur st user data] @ subscriptionEntries r i st user)) =
   (if truthy (sr_subscriptionId r) then 1 else 0)"
  "sr_subscriptionId r = Some k \<Longrightarrow> k \<noteq> [] \<Longrightarrow>
   entriesFor ''subscription'' k
     (syncEntries r st user @ [status_entry i cur st user data] @ subscriptionEntries r i st user) =
   [subscription_entry i k st user]"
proof -
  have e1: "ah_entityType (status_entry i cur st user data) = Some ''service_request''"
    "ah_entityId (status_entry i cur st user data) = Some i"
    by (simp_all add: status_entry_def)
  have e2: "ah_entityType (subscription_entry i k' st user) = Some ''subscription''"
    "ah_entityId (subscription_entry i k' st user) = Some k'" for k'
    by (simp_all add: subscription_entry_def)
  have e3: "ah_entityType (sync_entry k' a st user) = None" for k' a
    by (simp add: sync_entry_def)
  have sy: "filter (\<lambda>e. ah_entityType e = Some t \<and> P e) (syncEntries r st user) = []"
    "filter (\<lambda>e. ah_entityType e = Some t) (syncEntries r st user) = []" for t P
    by (simp_all add: syncEntries_def e3 split: option.splits)
  show "length (entriesFor ''service_request'' i
     (syncEntries r st user @ [status_entry i cur st user data] @ subscriptionEntries r i st user)) = 1"
    by (simp add: entriesFor_def sy e1 e2 subscriptionEntries_def split: option.splits)
  show "length (filter (\<lambda>e. ah_entityType e = Some ''subscription'')
     (syncEntries r st user @ [status_entry i cur st user data] @ subscriptionEntries r i st user)) =
   (if truthy (sr_subscriptionId r) then 1 else 0)"
    by (simp add: sy e1 e2 subscriptionEntries_def split: option.splits)
  show "sr_subscriptionId r = Some k \<Longrightarrow> k \<noteq> [] \<Longrightarrow>
   entriesFor ''subscription'' k
     (syncEntries r st user @ [status_entry i cur st user data] @ subscriptionEntries r i st user) =
   [subscription_entry i k st user]"
    by (simp add: entriesFor_def sy e1 e2 subscriptionEntries_def)
qed

text \<open>
  C2. For a stored service request: a call of \<open>updateServiceRequestStatus\<close> that returns
  has only appended to the action history, exactly one of the new entries is for the
  service request, and exactly one more is for its subscription if and only if
  \<open>subscriptionId\<close> is set; the entries are committed together with the new status. A call
  that throws commits nothing: the state is the one before the call. When a write of the
  transaction fails (the update of the request or any write after it), the call throws.
\<close>

theorem status_audit_entries_atomic:
  assumes "findServiceRequest db i = Some r"
  shows "(\<forall>v db'. updateServiceRequestStatus fails now db i st user data = (Inr v, db') \<longrightarrow>
            take (length (actionHistory db)) (actionHistory db') = actionHistory db \<and>
            length (entriesFor ''service_request'' i (newEntries db db')) = 1 \<and>
            length (filter (\<lambda>e. ah_entityType e = Some ''subscription'') (newEntries db db')) =
              (if truthy (sr_subscriptionId r) then 1 else 0) \<and>
            (\<forall>k. sr_subscriptionId r = Some k \<and> k \<noteq> [] \<longrightarrow>
               entriesFor ''subscription'' k (newEntries db db') = [subscription_entry i k st user]) \<and>
            map_option sr_status (findServiceRequest db' i) = Some st) \<and>
         (\<forall>e db'. updateServiceRequestStatus fails now db i st user data = (Inl e, db') \<longrightarrow>
            db' = db) \<and>
         (fails UpdateServiceRequest \<or> fails LogServiceRequest \<or>
          (truthy (sr_subscriptionId r) \<and> fails LogSubscription) \<or>
          (truthy (sr_installationRequestId r) \<and> sync_switch st \<noteq> None \<and>
             (fails SyncUpdateInstallation \<or> fails SyncLog)) \<longrightarrow>
            (\<exists>e. updateServiceRequestStatus fails now db i st user data = (Inl e, db)))"
proof (intro conjI allI impI)
  fix v db'
  assume run: "updateServiceRequestStatus fails now db i st user data = (Inr v, db')"
  let ?new = "syncEntries r st user @ [status_entry i (sr_status r) st user data] @
              subscriptionEntries r i st user"
  have hist: "actionHistory db' = actionHistory db @ ?new"
    by (rule update_committed(4) [OF assms run])
  then have new: "newEntries db db' = ?new"
    by (simp add: newEntries_def)
  show "take (length (actionHistory db)) (actionHistory db') = actionHistory db"
    by (simp add: hist)
  show "length (entriesFor ''service_request'' i (newEntries db db')) = 1"
    unfolding new by (rule new_entries_counted(1))
  show "length (filter (\<lambda>e. ah_entityType e = Some ''subscription'') (newEntries db db')) =
      (if truthy (sr_subscriptionId r) then 1 else 0)"
    unfolding new by (rule new_entries_counted(2))
  show "map_option sr_status (findServiceRequest db' i) = Some st"
    by (simp add: updated_row [OF assms run] images_after_set)
  fix k
  assume "sr_subscriptionId r = Some k \<and> k \<noteq> []"
  then have "sr_subscriptionId r = Some k" and "k \<noteq> []" by simp_all
  from new_entries_counted(3) [OF this]
  show "entriesFor ''subscription'' k (newEntries db db') = [subscription_entry i k st user]"
    unfolding new .
next
  fix e db'
  assume "updateServiceRequestStatus fails now db i st user data = (Inl e, db')"
  then show "db' = db" by (rule update_rolled_back)
next
  assume bad: "fails UpdateServiceRequest \<or> fails LogServiceRequest \<or>
          (truthy (sr_subscriptionId r) \<and> fails LogSubscription) \<or>
          (truthy (sr_installationRequestId r) \<and> sync_switch st \<noteq> None \<and>
             (fails SyncUpdateInstallation \<or> fails SyncLog))"
  obtain res db' where run: "updateServiceRequestStatus fails now db i st user data = (res, db')"
    by (cases "updateServiceRequestStatus fails now db i st user data")
  show "\<exists>e. updateServiceRequestStatus fails now db i st user data = (Inl e, db)"
  proof (cases res)
    case (Inl e)
    with run have "updateServiceRequestStatus fails now db i st user data = (Inl e, db')" by simp
    from this update_rolled_back [OF this] show ?thesis by simp
  next
    case (Inr v)
    with run have c: "updateServiceRequestStatus fails now db i st user data = (Inr v, db')" by simp
    from statusTransaction_no_fault [OF update_ran [OF assms c]] have
      "\<not> fails UpdateServiceRequest" "\<not> fails LogServiceRequest"
      "truthy (sr_subscriptionId r) \<longrightarrow> \<not> fails LogSubscription"
      "truthy (sr_installationRequestId r) \<and> sync_switch st \<noteq> None \<longrightarrow>
         \<not> fails SyncUpdateInstallation \<and> \<not> fails SyncLog"
      by simp_all
    with bad show ?thesis by argo
  qed
qed

theorem status_audit_entries_atomic_witness:
  "length (entriesFor ''service_request'' ''srq1''
      (newEntries (store [generalRequest IN_PROGRESS True (Some ''sub1'')] [])
         (snd (updateServiceRequestStatus noFaults ''t1''
            (store [generalRequest IN_PROGRESS True (Some ''sub1'')] []) ''srq1'' CANCELLED agent1
            noData)))) = 1 \<and>
   length (entriesFor ''subscription'' ''sub1''
      (newEntries (store [generalRequest IN_PROGRESS True (Some ''sub1'')] [])
         (snd (updateServiceRequestStatus noFaults ''t1''
            (store [generalRequest IN_PROGRESS True (Some ''sub1'')] []) ''srq1'' CANCELLED agent1
            noData)))) = 1 \<and>
   updateServiceRequestStatus (failAt LogSubscription) ''t1''
     (store [generalRequest IN_PROGRESS True (Some ''sub1'')] []) ''srq1'' CANCELLED agent1 noData =
   (Inl (Thrown ''write failed''), store [generalRequest IN_PROGRESS True (Some ''sub1'')] [])"
proof -
  let ?db = "store [generalRequest IN_PROGRESS True (Some ''sub1'')] []"
  let ?r = "generalRequest IN_PROGRESS True (Some ''sub1'')"
  let ?good = "updateServiceRequestStatus noFaults ''t1'' ?db ''srq1'' CANCELLED agent1 noData"
  let ?bad = "updateServiceRequestStatus (failAt LogSubscription) ''t1'' ?db ''srq1'' CANCELLED
      agent1 noData"
  have found: "findServiceRequest ?db ''srq1'' = Some ?r"
    by (simp add: findServiceRequest_def store_def generalRequest_def)
  have sub: "sr_subscriptionId ?r = Some ''sub1'' \<and> ''sub1'' \<noteq> []"
    by (simp add: generalRequest_def)
  have "fst ?good = Inr (Some (viewOf ?db ?r None))"
    by (simp add: run_defs)
  then have ran: "?good = (Inr (Some (viewOf ?db ?r None)), snd ?good)"
    by (simp add: prod_eq_iff)
  have "fst ?bad = Inl (Thrown ''write failed'')"
    by (simp add: run_defs)
  then have thrown: "?bad = (Inl (Thrown ''write failed''), snd ?bad)"
    by (simp add: prod_eq_iff)
  note good = status_audit_entries_atomic [OF found, of noFaults "''t1''" CANCELLED agent1 noData,
      THEN conjunct1, rule_format, OF ran]
  note bad = status_audit_entries_atomic [OF found, of "failAt LogSubscription" "''t1''" CANCELLED
      agent1 noData, THEN conjunct2, THEN conjunct1, rule_format, OF thrown]
  have g1: "length (entriesFor ''service_request'' ''srq1'' (newEntries ?db (snd ?good))) = 1"
    using good by simp
  have "entriesFor ''subscription'' ''sub1'' (newEntries ?db (snd ?good)) =
      [subscription_entry ''srq1'' ''sub1'' CANCELLED agent1]"
    using good sub by blast
  then have g2: "length (entriesFor ''subscription'' ''sub1'' (newEntries ?db (snd ?good))) = 1"
    by simp
  have b: "?bad = (Inl (Thrown ''write failed''), ?db)"
    using thrown bad by simp
  show ?thesis using g1 g2 b by simp
qed

section \<open>The synchronizer's mapping\<close>

text \<open>
  C8. Run on the caller's transaction for an installation request, the synchronizer writes
  nothing (no installation request, no audit entry) for the source statuses CREATED and
  ASSIGNED, whatever the store would do on a write. For the other source statuses, when
  its two writes go through, it sets the status of the installation request to
  INSTALLATION_IN_PROGRESS for IN_PROGRESS, PAYMENT_PENDING for PAYMENT_PENDING,
  INSTALLATION_COMPLETED for COMPLETED, CANCELLED for CANCELLED (clearing
  \<open>razorpayPaymentLink\<close> and \<open>razorpaySubscriptionId\<close> as well) and INSTALLATION_SCHEDULED for
  SCHEDULED, and appends one audit entry; other rows and tables are untouched.
\<close>

theorem sync_maps_status:
  "((st = CREATED \<or> st = ASSIGNED) \<longrightarrow>
      syncInstallationRequestStatusInTransaction fails tx k st user = Inr tx) \<and>
   (st \<noteq> CREATED \<and> st \<noteq> ASSIGNED \<and> \<not> fails SyncUpdateInstallation \<and> \<not> fails SyncLog \<longrightarrow>
      (\<exists>tx'. syncInstallationRequestStatusInTransaction fails tx k st user = Inr tx' \<and>
         installationRequests tx' =
           map (\<lambda>r. if ir_id r = k
                     then (case st of
                             IN_PROGRESS \<Rightarrow> r\<lparr>ir_status := INSTALLATION_IN_PROGRESS\<rparr>
                           | PAYMENT_PENDING \<Rightarrow> r\<lparr>ir_status := IR_PAYMENT_PENDING\<rparr>
                           | COMPLETED \<Rightarrow> r\<lparr>ir_status := INSTALLATION_COMPLETED\<rparr>
                           | CANCELLED \<Rightarrow> r\<lparr>ir_status := IR_CANCELLED,
                                              ir_razorpayPaymentLink := None,
                                              ir_razorpaySubscriptionId := None\<rparr>
                           | SCHEDULED \<Rightarrow> r\<lparr>ir_status := INSTALLATION_SCHEDULED\<rparr>
                           | _ \<Rightarrow> r)
                     else r) (installationRequests tx) \<and>
         length (actionHistory tx') = length (actionHistory tx) + 1 \<and>
         serviceRequests tx' = serviceRequests tx \<and> payments tx' = payments tx \<and>
         subscriptions tx' = subscriptions tx))"
  by (cases st)
     (simp_all add: syncInstallationRequestStatusInTransaction_def andThen_def attempt_def
        update_installationRequests_def sync_set_def logActionHistoryInTransaction_def
        logActionHistory_def)

theorem sync_maps_status_witness:
  "syncInstallationRequestStatusInTransaction (failAt SyncLog)
     (store [] [installation1 IR_PAYMENT_PENDING]) ''inst1'' ASSIGNED agent1 =
     Inr (store [] [installation1 IR_PAYMENT_PENDING]) \<and>
   (\<exists>tx'. syncInstallationRequestStatusInTransaction noFaults
       (store [] [installation1 IR_PAYMENT_PENDING]) ''inst1'' CANCELLED agent1 = Inr tx' \<and>
     map (\<lambda>r. (ir_status r, ir_razorpayPaymentLink r, ir_razorpaySubscriptionId r))
       (installationRequests tx') = [(IR_CANCELLED, None, None)] \<and>
     length (actionHistory tx') = 1)"
proof -
  have irs: "installationRequests (store [] [installation1 IR_PAYMENT_PENDING]) =
      [installation1 IR_PAYMENT_PENDING]"
    "actionHistory (store [] [installation1 IR_PAYMENT_PENDING]) = []"
    by (simp_all add: store_def)
  have idk: "ir_id (installation1 IR_PAYMENT_PENDING) = ''inst1''"
    by (simp add: installation1_def)
  have ok: "\<not> noFaults SyncUpdateInstallation \<and> \<not> noFaults SyncLog"
    by (simp add: noFaults_def)
  from sync_maps_status [of ASSIGNED "failAt SyncLog" "store [] [installation1 IR_PAYMENT_PENDING]"
      "''inst1''" agent1]
  have a: "syncInstallationRequestStatusInTransaction (failAt SyncLog)
     (store [] [installation1 IR_PAYMENT_PENDING]) ''inst1'' ASSIGNED agent1 =
     Inr (store [] [installation1 IR_PAYMENT_PENDING])"
    by simp
  from sync_maps_status [of CANCELLED noFaults "store [] [installation1 IR_PAYMENT_PENDING]"
      "''inst1''" agent1] ok
  obtain tx' where b: "syncInstallationRequestStatusInTransaction noFaults
       (store [] [installation1 IR_PAYMENT_PENDING]) ''inst1'' CANCELLED agent1 = Inr tx'"
     "installationRequests tx' =
        [(installation1 IR_PAYMENT_PENDING)\<lparr>ir_status := IR_CANCELLED,
            ir_razorpayPaymentLink := None, ir_razorpaySubscriptionId := None\<rparr>]"
     "length (actionHistory tx') = 1"
    by (auto simp: irs idk)
  show ?thesis
    using a b by (simp add: installation1_def)
qed

section \<open>The assignment invariant\<close>

text \<open>
  C9 fails on \<open>createInstallationServiceRequest\<close>. An admin creates the installation
  service request of \<open>inst1\<close> without an agent (the row is CREATED and unassigned, the
  invariant holds) and calls the operation again with the same payload: the branch for an
  existing request sets the status to SCHEDULED and leaves \<open>assignedToId\<close> null.
\<close>

theorem unassigned_installation_request_scheduled:
  "assigned_invariant (store [] [installation1 SUBMITTED]) \<and>
   assigned_invariant
     (snd (createInstallationServiceRequest env1 (store [] [installation1 SUBMITTED])
        unassignedData admin1)) \<and>
   map (\<lambda>r. (sr_status r, sr_assignedToId r))
     (serviceRequests
        (snd (createInstallationServiceRequest env2
           (snd (createInstallationServiceRequest env1 (store [] [installation1 SUBMITTED])
              unassignedData admin1))
           unassignedData admin1))) = [(SCHEDULED, None)] \<and>
   \<not> assigned_invariant
     (snd (createInstallationServiceRequest env2
        (snd (createInstallationServiceRequest env1 (store [] [installation1 SUBMITTED])
           unassignedData admin1))
        unassignedData admin1))"
  by (simp add: createInstallationServiceRequest_def store_def installation1_def
      unassignedData_def admin1_def env1_def env2_def newInstallationServiceRequest_def
      update_installationRequests_def update_serviceRequests_def logActionHistory_def
      getFranchiseById_def findServiceRequest_def ServiceRequestType_INSTALLATION_def js_or_def
      assigned_invariant_def assigned_ok_def Let_def)

section \<open>The order of gateway reads and writes in payment reconciliation\<close>

lemma tx_write_simps:
  "fst (tx_write t f s) = f (fst s)"
  "snd (tx_write t f s) = snd s @ [DbWrite t]"
  by (simp_all add: tx_write_def)

lemma gateway_call_simps:
  "fst (gateway_call ev s) = fst s"
  "snd (gateway_call ev s) = snd s @ [ev]"
  by (simp_all add: gateway_call_def)

lemma findSuccessfulPayment_trace:
  assumes "findSuccessfulPayment gw r ir s = (res, s')"
    and "truthy (ir_razorpaySubscriptionId ir)"
  shows "fst s' = fst s \<and>
         (\<exists>sid g. snd s' = snd s @ GatewayFetchSubscription sid # g \<and> list_all gatewayEvent g)"
  using assms
  by (auto simp: findSuccessfulPayment_def Let_def gateway_call_simps
      split: option.splits if_splits sum.splits list.splits)

lemma repairSubscription_trace:
  "\<exists>w. snd (repairSubscription e i k user sp p ir pr s) = snd s @ w \<and> list_all writeEvent w"
  by (simp add: repairSubscription_def Let_def tx_write_simps)

lemma createSubscription_trace:
  "\<exists>w. snd (createSubscription e i k pid sp ir pr s) = snd s @ w \<and> list_all writeEvent w"
  by (simp add: createSubscription_def Let_def tx_write_simps)

lemma storePayment_trace:
  "snd (storePayment e k pid sp ex s) = snd s @ [DbWrite ''payments'']"
  by (simp add: storePayment_def Let_def tx_write_simps split: option.splits)

lemma completeRequests_trace:
  "\<exists>w. snd (completeRequests e i k pid user sp s) = snd s @ w \<and> list_all writeEvent w"
  by (simp add: completeRequests_def Let_def tx_write_simps)

lemma writes_refl: "\<exists>w. snd s = snd s @ w \<and> list_all writeEvent w"
  by simp

lemma writes_trans:
  assumes "\<exists>w. snd s1 = snd s @ w \<and> list_all writeEvent w"
    and "\<exists>w. snd s2 = snd s1 @ w \<and> list_all writeEvent w"
  shows "\<exists>w. snd s2 = snd s @ w \<and> list_all writeEvent w"
proof -
  from assms obtain w1 w2 where "snd s1 = snd s @ w1" "list_all writeEvent w1"
    "snd s2 = snd s1 @ w2" "list_all writeEvent w2" by blast
  then have "snd s2 = snd s @ (w1 @ w2) \<and> list_all writeEvent (w1 @ w2)" by simp
  then show ?thesis by blast
qed

lemma completedPaymentPath_trace:
  assumes "completedPaymentPath e i k user sp p s = (res, s')"
  shows "\<exists>w. snd s' = snd s @ w \<and> list_all writeEvent w"
proof -
  have "s' = s \<or> (\<exists>ir pr. s' = repairSubscription e i k user sp p ir pr s)"
    using assms by (auto simp: completedPaymentPath_def Let_def split: option.splits)
  then show ?thesis
    using repairSubscription_trace writes_refl by metis
qed

lemma ensureSubscription_trace:
  assumes "ensureSubscription e i k pid sp s = Inr s'"
  shows "\<exists>w. snd s' = snd s @ w \<and> list_all writeEvent w"
proof -
  have "s' = s \<or> (\<exists>ir pr. s' = createSubscription e i k pid sp ir pr s)"
    using assms by (auto simp: ensureSubscription_def split: option.splits)
  then show ?thesis
    using createSubscription_trace writes_refl by metis
qed

lemma newPaymentPath_trace:
  assumes "newPaymentPath e i k user sp ex s = (res, s')"
  shows "\<exists>w. snd s' = snd s @ w \<and> list_all writeEvent w"
proof -
  let ?pid = "paymentIdFor e ex"
  let ?s1 = "storePayment e k ?pid sp ex s"
  have one: "\<exists>w. snd ?s1 = snd s @ w \<and> list_all writeEvent w"
    by (simp add: storePayment_trace)
  show ?thesis
  proof (cases "ensureSubscription e i k ?pid sp ?s1")
    case (Inl err)
    with assms have "s' = ?s1" by (simp add: newPaymentPath_def Let_def)
    with one show ?thesis by simp
  next
    case (Inr s2)
    with assms have "s' = completeRequests e i k ?pid user sp s2"
      by (simp add: newPaymentPath_def Let_def)
    with completeRequests_trace [of e i k ?pid user sp s2]
    have "\<exists>w. snd s' = snd s2 @ w \<and> list_all writeEvent w" by simp
    from writes_trans [OF writes_trans [OF one ensureSubscription_trace [OF Inr]] this]
    show ?thesis .
  qed
qed

lemma writes_after_gateway:
  assumes "list_all gatewayEvent g" and "list_all writeEvent w"
  shows "gatewayReadsBeforeWrites (g @ w)"
proof -
  have "dropWhile gatewayEvent (g @ w) = dropWhile gatewayEvent w"
    using assms(1) by (induction g) simp_all
  moreover have "list_all writeEvent (dropWhile gatewayEvent w)"
    using assms(2) by (induction w) simp_all
  ultimately show ?thesis by (simp add: gatewayReadsBeforeWrites_def)
qed

lemma refreshTry_trace:
  assumes "refreshTry gw e r ir i k user s = (res, s')"
    and "truthy (ir_razorpaySubscriptionId ir)"
  shows "\<exists>sid mid. snd s' = snd s @ GatewayFetchSubscription sid # mid \<and>
           gatewayReadsBeforeWrites mid"
proof -
  obtain res1 s1 where f: "findSuccessfulPayment gw r ir s = (res1, s1)"
    by (cases "findSuccessfulPayment gw r ir s")
  from findSuccessfulPayment_trace [OF f assms(2)] obtain sid g where
    g: "snd s1 = snd s @ GatewayFetchSubscription sid # g" "list_all gatewayEvent g" by blast
  have "\<exists>w. snd s' = snd s1 @ w \<and> list_all writeEvent w"
    using assms(1) f
    by (auto simp: refreshTry_def Let_def
        split: sum.splits option.splits if_splits
        dest: completedPaymentPath_trace newPaymentPath_trace)
  then obtain w where w: "snd s' = snd s1 @ w" "list_all writeEvent w" by blast
  from writes_after_gateway [OF g(2) w(2)] g(1) w(1) show ?thesis by simp
qed

text \<open>
  C6, as amended. In \<open>refreshPaymentStatus\<close> the read of the payment gateway (the fetch of
  the gateway subscription, then of its invoices) is made inside the transaction callback:
  a run either opens no transaction and calls nothing, or its events are the opening of
  the transaction, then the fetch of the subscription, then further gateway reads followed
  by writes only, then the commit or the rollback. The gateway is read before any write of
  the transaction and never after one.
\<close>

theorem gateway_read_inside_transaction:
  "snd (snd (refreshPaymentStatus gw e db i user)) = [] \<or>
   (\<exists>sid mid fin. snd (snd (refreshPaymentStatus gw e db i user)) =
        TxBegin # GatewayFetchSubscription sid # mid @ [fin] \<and>
      (fin = TxCommit \<or> fin = TxRollback) \<and> gatewayReadsBeforeWrites mid)"
proof -
  have tx: "\<exists>sid mid fin. snd (snd (tracedTransaction db (refreshCallback gw e r ir i k user))) =
        TxBegin # GatewayFetchSubscription sid # mid @ [fin] \<and>
      (fin = TxCommit \<or> fin = TxRollback) \<and> gatewayReadsBeforeWrites mid"
    if "truthy (ir_razorpaySubscriptionId ir)" for r ir k
  proof -
    obtain res s' where t: "refreshTry gw e r ir i k user (db, [TxBegin]) = (res, s')"
      by (cases "refreshTry gw e r ir i k user (db, [TxBegin])")
    from refreshTry_trace [OF t that] obtain sid mid where
      m: "snd s' = TxBegin # GatewayFetchSubscription sid # mid" "gatewayReadsBeforeWrites mid"
      by auto
    show ?thesis
      using t m by (cases res) (auto simp: tracedTransaction_def refreshCallback_def)
  qed
  show ?thesis
    using tx
    by (auto simp: refreshPaymentStatus_def Let_def split: sum.splits option.splits)
qed

text \<open>The definitions a run of \<open>refreshPaymentStatus\<close> on a concrete input unfolds.\<close>

lemmas refresh_defs =
  refreshPaymentStatus_def getServiceRequestById_def paymentStatusOf_def viewOf_def
  findServiceRequest_def store_def
  installationRequest1_def installation1_def tracedTransaction_def refreshCallback_def
  refreshTry_def findSuccessfulPayment_def paidGateway_def gateway_call_def
  newPaymentPath_def ensureSubscription_def createSubscription_def storePayment_def
  completeRequests_def paymentIdFor_def tx_write_def insert_payment_def
  insert_subscription_def update_payments_def update_installationRequests_def
  update_serviceRequests_def product1_def logActionHistoryInTransaction_def
  logActionHistory_def Let_def

text \<open>
  The claim as stated fails: with a paid invoice at the gateway, the transaction is opened
  first and both gateway reads follow, before the writes and the commit.
\<close>

theorem gateway_read_inside_transaction_counterexample:
  "snd (snd (refreshPaymentStatus paidGateway env1
      (store [installationRequest1] [installation1 IR_PAYMENT_PENDING]) ''srq9'' agent1)) =
   [TxBegin, GatewayFetchSubscription ''rzp_sub1'', GatewayListInvoices None,
    DbWrite ''payments'', DbWrite ''subscriptions'', DbWrite ''payments'',
    DbWrite ''installation_requests'', DbWrite ''service_requests'',
    DbWrite ''installation_requests'', DbWrite ''service_requests'',
    DbWrite ''action_history'', DbWrite ''action_history'', TxCommit]"
  by (simp add: refresh_defs)

section \<open>Payment reconciliation is idempotent\<close>

lemma filter_update_length:
  assumes "\<And>x. P (f x) = P x"
  shows "length (filter P (map (\<lambda>x. if c x then f x else x) xs)) = length (filter P xs)"
  by (induction xs) (simp_all add: assms)

lemma table_simps:
  "payments (update_serviceRequests i f tx) = payments tx"
  "payments (update_installationRequests i g tx) = payments tx"
  "payments (logActionHistoryInTransaction tx en) = payments tx"
  "payments (insert_subscription x tx) = payments tx"
  "payments (insert_payment p tx) = payments tx @ [p]"
  "payments (update_payments i h tx) = map (\<lambda>p. if pay_id p = i then h p else p) (payments tx)"
  "subscriptions (update_serviceRequests i f tx) = subscriptions tx"
  "subscriptions (update_installationRequests i g tx) = subscriptions tx"
  "subscriptions (logActionHistoryInTransaction tx en) = subscriptions tx"
  "subscriptions (insert_payment p tx) = subscriptions tx"
  "subscriptions (update_payments i h tx) = subscriptions tx"
  "subscriptions (insert_subscription x tx) = subscriptions tx @ [x]"
  "serviceRequests (update_installationRequests i g tx) = serviceRequests tx"
  "serviceRequests (logActionHistoryInTransaction tx en) = serviceRequests tx"
  "serviceRequests (insert_payment p tx) = serviceRequests tx"
  "serviceRequests (update_payments i h tx) = serviceRequests tx"
  "serviceRequests (insert_subscription x tx) = serviceRequests tx"
  "serviceRequests (update_serviceRequests i f tx) =
     map (\<lambda>r. if sr_id r = i then f r else r) (serviceRequests tx)"
  by (simp_all add: update_serviceRequests_def update_installationRequests_def
      logActionHistoryInTransaction_def logActionHistory_def insert_subscription_def
      insert_payment_def update_payments_def)

lemma repairSubscription_effect:
  "length (payments (fst (repairSubscription e i k user sp p ir pr s))) =
     length (payments (fst s)) \<and>
   length (completedPayments k' g (fst (repairSubscription e i k user sp p ir pr s))) =
     length (completedPayments k' g (fst s)) \<and>
   (\<exists>x. subscriptions (fst (repairSubscription e i k user sp p ir pr s)) =
          subscriptions (fst s) @ [x] \<and> sub_requestId x = k) \<and>
   map_option sr_status (findServiceRequest (fst (repairSubscription e i k user sp p ir pr s)) i) =
     map_option (\<lambda>r. COMPLETED) (findServiceRequest (fst s) i)"
  by (simp add: repairSubscription_def Let_def tx_write_simps table_simps
      completedPayments_def filter_update_length newSubscription_def findServiceRequest_def
      find_map_update [where key = sr_id] option.map_comp comp_def)

lemma createSubscription_effect:
  "length (payments (fst (createSubscription e i k pid sp ir pr s))) =
     length (payments (fst s)) \<and>
   length (completedPayments k' g (fst (createSubscription e i k pid sp ir pr s))) =
     length (completedPayments k' g (fst s)) \<and>
   (\<exists>x. subscriptions (fst (createSubscription e i k pid sp ir pr s)) =
          subscriptions (fst s) @ [x] \<and> sub_requestId x = k) \<and>
   map_option sr_status (findServiceRequest (fst (createSubscription e i k pid sp ir pr s)) i) =
     map_option sr_status (findServiceRequest (fst s) i)"
  by (simp add: createSubscription_def Let_def tx_write_simps table_simps
      completedPayments_def filter_update_length newSubscription_def findServiceRequest_def
      find_map_update [where key = sr_id] option.map_comp comp_def)

lemma storePayment_effect:
  "(\<exists>p. payments (fst (storePayment e k pid sp None s)) = payments (fst s) @ [p] \<and>
        pay_installationRequestId p = Some k \<and> pay_razorpayPaymentId p = Some (sp_id sp) \<and>
        pay_status p = PAY_COMPLETED) \<and>
   subscriptions (fst (storePayment e k pid sp None s)) = subscriptions (fst s) \<and>
   serviceRequests (fst (storePayment e k pid sp None s)) = serviceRequests (fst s)"
  by (simp add: storePayment_def Let_def tx_write_simps table_simps)

lemma completeRequests_effect:
  "payments (fst (completeRequests e i k pid user sp s)) = payments (fst s) \<and>
   subscriptions (fst (completeRequests e i k pid user sp s)) = subscriptions (fst s) \<and>
   map_option sr_status (findServiceRequest (fst (completeRequests e i k pid user sp s)) i) =
     map_option (\<lambda>r. COMPLETED) (findServiceRequest (fst s) i)"
  by (simp add: completeRequests_def Let_def tx_write_simps table_simps
      findServiceRequest_def find_map_update [where key = sr_id] option.map_comp comp_def)

lemma findSuccessfulPayment_state:
  assumes "findSuccessfulPayment gw r ir s = (res, s')"
  shows "fst s' = fst s"
  using assms
  by (auto simp: findSuccessfulPayment_def Let_def gateway_call_simps
      split: option.splits if_splits sum.splits list.splits)

lemma find_None_filter: "find P xs = None \<Longrightarrow> filter P xs = []"
  by (induction xs) (auto split: if_splits)

lemma completedPaymentPath_effect:
  assumes "completedPaymentPath e i k user sp p s = (Inr v, s')"
  shows "fst s' = fst s \<or>
         (length (payments (fst s')) = length (payments (fst s)) \<and>
          length (completedPayments k' g (fst s')) = length (completedPayments k' g (fst s)) \<and>
          subscriptionsOf k (fst s) = [] \<and>
          (\<exists>x. subscriptions (fst s') = subscriptions (fst s) @ [x] \<and> sub_requestId x = k) \<and>
          map_option sr_status (findServiceRequest (fst s') i) =
            map_option (\<lambda>r. COMPLETED) (findServiceRequest (fst s) i))"
proof -
  have "s' = s \<or> (find (\<lambda>x. sub_requestId x = k) (subscriptions (fst s)) = None \<and>
      (\<exists>ir pr. s' = repairSubscription e i k user sp p ir pr s))"
    using assms by (auto simp: completedPaymentPath_def Let_def split: option.splits)
  then show ?thesis
  proof
    assume "s' = s"
    then show ?thesis by simp
  next
    assume "find (\<lambda>x. sub_requestId x = k) (subscriptions (fst s)) = None \<and>
      (\<exists>ir pr. s' = repairSubscription e i k user sp p ir pr s)"
    then obtain ir pr where none: "subscriptionsOf k (fst s) = []"
      and s': "s' = repairSubscription e i k user sp p ir pr s"
      by (auto simp: subscriptionsOf_def dest: find_None_filter)
    show ?thesis
      unfolding s' using none repairSubscription_effect [of e i k user sp p ir pr s k' g]
      by blast
  qed
qed

lemma ensureSubscription_effect:
  assumes "ensureSubscription e i k pid sp s = Inr s'"
  shows "s' = s \<or> (subscriptionsOf k (fst s) = [] \<and>
           (\<exists>ir pr. s' = createSubscription e i k pid sp ir pr s))"
  using assms
  by (auto simp: ensureSubscription_def subscriptionsOf_def
      split: option.splits dest: find_None_filter)

lemma newPaymentPath_effect:
  assumes run: "newPaymentPath e i k user sp None s = (Inr v, s')"
    and fresh: "completedPayments k (sp_id sp) (fst s) = []"
  shows "length (payments (fst s')) = length (payments (fst s)) + 1 \<and>
         length (completedPayments k' g (fst s')) \<le> max 1 (length (completedPayments k' g (fst s))) \<and>
         length (subscriptions (fst s')) \<le> length (subscriptions (fst s)) + 1 \<and>
         length (subscriptionsOf k' (fst s')) \<le> max 1 (length (subscriptionsOf k' (fst s))) \<and>
         map_option sr_status (findServiceRequest (fst s') i) =
           map_option (\<lambda>r. COMPLETED) (findServiceRequest (fst s) i)"
proof -
  let ?pid = "paymentIdFor e None"
  let ?s1 = "storePayment e k ?pid sp None s"
  obtain s2 where ens: "ensureSubscription e i k ?pid sp ?s1 = Inr s2"
    and s': "s' = completeRequests e i k ?pid user sp s2"
    using run by (auto simp: newPaymentPath_def Let_def split: sum.splits)
  from storePayment_effect [of e k ?pid sp s] obtain p where
    p1: "payments (fst ?s1) = payments (fst s) @ [p]"
    and pk: "pay_installationRequestId p = Some k" "pay_razorpayPaymentId p = Some (sp_id sp)"
      "pay_status p = PAY_COMPLETED"
    and sub1: "subscriptions (fst ?s1) = subscriptions (fst s)"
    and sr1: "serviceRequests (fst ?s1) = serviceRequests (fst s)"
    by blast
  have c1: "length (completedPayments k' g (fst ?s1)) \<le> max 1 (length (completedPayments k' g (fst s)))"
  proof (cases "k' = k \<and> g = sp_id sp")
    case True
    with fresh p1 show ?thesis by (simp add: completedPayments_def)
  next
    case False
    with p1 pk show ?thesis by (auto simp: completedPayments_def)
  qed
  have got1: "findServiceRequest (fst ?s1) i = findServiceRequest (fst s) i"
    by (simp add: findServiceRequest_def sr1)
  from ensureSubscription_effect [OF ens]
  have e2: "length (payments (fst s2)) = length (payments (fst ?s1)) \<and>
      length (completedPayments k' g (fst s2)) = length (completedPayments k' g (fst ?s1)) \<and>
      length (subscriptions (fst s2)) \<le> length (subscriptions (fst ?s1)) + 1 \<and>
      length (subscriptionsOf k' (fst s2)) \<le> max 1 (length (subscriptionsOf k' (fst ?s1))) \<and>
      map_option sr_status (findServiceRequest (fst s2) i) =
        map_option sr_status (findServiceRequest (fst ?s1) i)"
  proof
    assume "s2 = ?s1"
    then show ?thesis by simp
  next
    assume "subscriptionsOf k (fst ?s1) = [] \<and>
      (\<exists>ir pr. s2 = createSubscription e i k ?pid sp ir pr ?s1)"
    then obtain ir pr where none: "subscriptionsOf k (fst ?s1) = []"
      and s2: "s2 = createSubscription e i k ?pid sp ir pr ?s1" by blast
    note ce = createSubscription_effect [of e i k ?pid sp ir pr ?s1 k' g]
    from ce obtain x where
      x: "subscriptions (fst s2) = subscriptions (fst ?s1) @ [x]" "sub_requestId x = k"
      unfolding s2 by blast
    have "length (subscriptionsOf k' (fst s2)) \<le> max 1 (length (subscriptionsOf k' (fst ?s1)))"
      using none x by (cases "k' = k") (simp_all add: subscriptionsOf_def)
    then show ?thesis
      using x(1) ce unfolding s2 by simp
  qed
  have e3: "payments (fst s') = payments (fst s2)" "subscriptions (fst s') = subscriptions (fst s2)"
    "map_option sr_status (findServiceRequest (fst s') i) =
       map_option (\<lambda>r. COMPLETED) (findServiceRequest (fst s2) i)"
    unfolding s' using completeRequests_effect [of e i k ?pid user sp s2] by simp_all
  have r1: "length (payments (fst s')) = length (payments (fst s)) + 1"
    using e2 e3 p1 by simp
  have r2: "length (completedPayments k' g (fst s')) \<le> max 1 (length (completedPayments k' g (fst s)))"
    using e2 e3(1) c1 by (simp add: completedPayments_def)
  have r3: "length (subscriptions (fst s')) \<le> length (subscriptions (fst s)) + 1"
    using e2 e3 sub1 by simp
  have r4: "length (subscriptionsOf k' (fst s')) \<le> max 1 (length (subscriptionsOf k' (fst s)))"
    using e2 e3(2) sub1 by (simp add: subscriptionsOf_def)
  have "map_option (\<lambda>r. COMPLETED) (findServiceRequest (fst s2) i) =
      map_option (\<lambda>r. COMPLETED) (findServiceRequest (fst s) i)"
    using e2 got1 by (cases "findServiceRequest (fst s2) i"; cases "findServiceRequest (fst s) i") auto
  with e3(3) have r5: "map_option sr_status (findServiceRequest (fst s') i) =
           map_option (\<lambda>r. COMPLETED) (findServiceRequest (fst s) i)"
    by simp
  show ?thesis using r1 r2 r3 r4 r5 by simp
qed

lemma find_Some_holds: "find P xs = Some x \<Longrightarrow> P x"
  by (induction xs) (auto split: if_splits)

lemma refreshTry_effect:
  assumes "refreshTry gw e r ir i req user s = (Inr v, s')"
  shows "fst s' = fst s \<or>
     (length (payments (fst s')) \<le> length (payments (fst s)) + 1 \<and>
      length (subscriptions (fst s')) \<le> length (subscriptions (fst s)) + 1 \<and>
      length (completedPayments k g (fst s')) \<le> max 1 (length (completedPayments k g (fst s))) \<and>
      length (subscriptionsOf k (fst s')) \<le> max 1 (length (subscriptionsOf k (fst s))) \<and>
      map_option sr_status (findServiceRequest (fst s') i) =
        map_option (\<lambda>r. COMPLETED) (findServiceRequest (fst s) i))"
proof -
  obtain res1 s1 where f: "findSuccessfulPayment gw r ir s = (res1, s1)"
    by (cases "findSuccessfulPayment gw r ir s")
  have same: "fst s1 = fst s"
    by (rule findSuccessfulPayment_state [OF f])
  from assms f obtain spo where res1: "res1 = Inr spo"
    by (cases res1) (auto simp: refreshTry_def)
  show ?thesis
  proof (cases spo)
    case None
    with assms f res1 have "s' = s1" by (simp add: refreshTry_def)
    with same show ?thesis by simp
  next
    case (Some sp)
    let ?Q = "\<lambda>p. pay_installationRequestId p = Some req \<and>
                  pay_razorpayPaymentId p = Some (sp_id sp) \<and> pay_status p = PAY_COMPLETED"
    show ?thesis
    proof (cases "find ?Q (payments (fst s1))")
      case None
      then have fresh: "completedPayments req (sp_id sp) (fst s1) = []"
        by (simp add: completedPayments_def find_None_filter)
      have run: "newPaymentPath e i req user sp None s1 = (Inr v, s')"
        using assms f res1 Some None by (simp add: refreshTry_def Let_def)
      from newPaymentPath_effect [OF run fresh, of k g] same
      show ?thesis by simp
    next
      case (Some p)
      then have "pay_status p = PAY_COMPLETED"
        using find_Some_holds [of ?Q "payments (fst s1)" p] by simp
      with assms f res1 \<open>spo = Some sp\<close> Some
      have run: "completedPaymentPath e i req user sp p s1 = (Inr v, s')"
        by (simp add: refreshTry_def Let_def)
      from completedPaymentPath_effect [OF run, of k g]
      show ?thesis
      proof
        assume "fst s' = fst s1"
        with same show ?thesis by simp
      next
        assume a: "length (payments (fst s')) = length (payments (fst s1)) \<and>
          length (completedPayments k g (fst s')) = length (completedPayments k g (fst s1)) \<and>
          subscriptionsOf req (fst s1) = [] \<and>
          (\<exists>x. subscriptions (fst s') = subscriptions (fst s1) @ [x] \<and> sub_requestId x = req) \<and>
          map_option sr_status (findServiceRequest (fst s') i) =
            map_option (\<lambda>r. COMPLETED) (findServiceRequest (fst s1) i)"
        then obtain x where x: "subscriptions (fst s') = subscriptions (fst s1) @ [x]"
          "sub_requestId x = req" by blast
        have "length (subscriptionsOf k (fst s')) \<le> max 1 (length (subscriptionsOf k (fst s1)))"
          using a x by (cases "k = req") (simp_all add: subscriptionsOf_def)
        with a x same show ?thesis by simp
      qed
    qed
  qed
qed

lemma refresh_effect:
  assumes "refreshPaymentStatus gw e db i user = (res, db', tr)"
  shows "db' = db \<or>
     (length (payments db') \<le> length (payments db) + 1 \<and>
      length (subscriptions db') \<le> length (subscriptions db) + 1 \<and>
      length (completedPayments k g db') \<le> max 1 (length (completedPayments k g db)) \<and>
      length (subscriptionsOf k db') \<le> max 1 (length (subscriptionsOf k db)) \<and>
      map_option sr_status (findServiceRequest db' i) = Some COMPLETED)"
proof (cases "findServiceRequest db i")
  case None
  with assms show ?thesis by (simp add: refreshPaymentStatus_def getServiceRequestById_def)
next
  case (Some r)
  have tx: "db' = db \<or>
     (length (payments db') \<le> length (payments db) + 1 \<and>
      length (subscriptions db') \<le> length (subscriptions db) + 1 \<and>
      length (completedPayments k g db') \<le> max 1 (length (completedPayments k g db)) \<and>
      length (subscriptionsOf k db') \<le> max 1 (length (subscriptionsOf k db)) \<and>
      map_option sr_status (findServiceRequest db' i) = Some COMPLETED)"
    if t: "tracedTransaction db (refreshCallback gw e r ir i req user) = (res, db', tr)"
    for ir req
  proof -
    obtain res0 s' where c: "refreshTry gw e r ir i req user (db, [TxBegin]) = (res0, s')"
      by (cases "refreshTry gw e r ir i req user (db, [TxBegin])")
    show ?thesis
    proof (cases res0)
      case (Inl err)
      with t c show ?thesis by (simp add: tracedTransaction_def refreshCallback_def)
    next
      case (Inr v)
      with t c have "db' = fst s'" by (simp add: tracedTransaction_def refreshCallback_def)
      with refreshTry_effect [OF c [unfolded Inr], of k g] Some show ?thesis by simp
    qed
  qed
  from lookup_found [OF Some] show ?thesis
  proof (elim disjE exE conjE)
    fix err assume "getServiceRequestById db i = Inl err"
    with assms show ?thesis by (simp add: refreshPaymentStatus_def)
  next
    fix view assume look: "getServiceRequestById db i = Inr (Some view)" and row: "v_row view = r"
    note run = assms [unfolded refreshPaymentStatus_def look sum.case option.case Let_def row]
    show ?thesis
      using run tx by (auto split: option.splits if_splits)
  qed
qed

lemma refresh_completed_noop:
  assumes "map_option sr_status (findServiceRequest db i) = Some COMPLETED"
  shows "fst (snd (refreshPaymentStatus gw e db i user)) = db"
proof (cases "getServiceRequestById db i")
  case (Inl err)
  then show ?thesis by (simp add: refreshPaymentStatus_def)
next
  case (Inr found)
  show ?thesis
  proof (cases found)
    case None
    with Inr show ?thesis by (simp add: refreshPaymentStatus_def)
  next
    case (Some view)
    with Inr have look: "getServiceRequestById db i = Inr (Some view)" by simp
    from lookup_row [OF look] assms have "sr_status (v_row view) = COMPLETED" by simp
    then show ?thesis
      by (simp add: refreshPaymentStatus_def look Let_def split: option.splits)
  qed
qed

text \<open>
  C3. Calling \<open>refreshPaymentStatus\<close> twice in succession for a service request, the
  gateway being the same in both calls: over the two calls at most one Payment row and at
  most one Subscription row are inserted; for every installation request and gateway
  payment id the store ends with at most one completed Payment row (or as many as it began
  with), and with at most one Subscription row of that installation request (or as many as
  it began with); and if the first call changed the store at all, the second call changes
  nothing, so it inserts no second Payment or Subscription.
\<close>

theorem reconciliation_idempotent:
  "length (payments (fst (snd (refreshPaymentStatus gw e2
       (fst (snd (refreshPaymentStatus gw e1 db i user1))) i user2)))) \<le> length (payments db) + 1 \<and>
   length (subscriptions (fst (snd (refreshPaymentStatus gw e2
       (fst (snd (refreshPaymentStatus gw e1 db i user1))) i user2)))) \<le>
     length (subscriptions db) + 1 \<and>
   length (completedPayments k g (fst (snd (refreshPaymentStatus gw e2
       (fst (snd (refreshPaymentStatus gw e1 db i user1))) i user2)))) \<le>
     max 1 (length (completedPayments k g db)) \<and>
   length (subscriptionsOf k (fst (snd (refreshPaymentStatus gw e2
       (fst (snd (refreshPaymentStatus gw e1 db i user1))) i user2)))) \<le>
     max 1 (length (subscriptionsOf k db)) \<and>
   (fst (snd (refreshPaymentStatus gw e1 db i user1)) = db \<or>
    fst (snd (refreshPaymentStatus gw e2
       (fst (snd (refreshPaymentStatus gw e1 db i user1))) i user2)) =
    fst (snd (refreshPaymentStatus gw e1 db i user1)))"
proof -
  let ?db1 = "fst (snd (refreshPaymentStatus gw e1 db i user1))"
  let ?db2 = "fst (snd (refreshPaymentStatus gw e2 ?db1 i user2))"
  have first: "refreshPaymentStatus gw e1 db i user1 =
      (fst (refreshPaymentStatus gw e1 db i user1), ?db1,
       snd (snd (refreshPaymentStatus gw e1 db i user1)))"
    by simp
  have snd': "refreshPaymentStatus gw e2 db i user2 =
      (fst (refreshPaymentStatus gw e2 db i user2),
       fst (snd (refreshPaymentStatus gw e2 db i user2)),
       snd (snd (refreshPaymentStatus gw e2 db i user2)))"
    by simp
  from refresh_effect [OF first, of k g]
  show ?thesis
  proof
    assume same: "?db1 = db"
    from refresh_effect [OF snd', of k g] show ?thesis
      unfolding same by auto
  next
    assume changed: "length (payments ?db1) \<le> length (payments db) + 1 \<and>
      length (subscriptions ?db1) \<le> length (subscriptions db) + 1 \<and>
      length (completedPayments k g ?db1) \<le> max 1 (length (completedPayments k g db)) \<and>
      length (subscriptionsOf k ?db1) \<le> max 1 (length (subscriptionsOf k db)) \<and>
      map_option sr_status (findServiceRequest ?db1 i) = Some COMPLETED"
    then have "?db2 = ?db1"
      using refresh_completed_noop [of ?db1 i gw e2 user2] by simp
    with changed show ?thesis by simp
  qed
qed

theorem reconciliation_idempotent_witness:
  "length (completedPayments ''inst1'' ''pay_rzp1''
     (fst (snd (refreshPaymentStatus paidGateway env2
        (fst (snd (refreshPaymentStatus paidGateway env1
           (store [installationRequest1] [installation1 IR_PAYMENT_PENDING]) ''srq9'' agent1)))
        ''srq9'' agent1)))) = 1 \<and>
   length (subscriptionsOf ''inst1''
     (fst (snd (refreshPaymentStatus paidGateway env2
        (fst (snd (refreshPaymentStatus paidGateway env1
           (store [installationRequest1] [installation1 IR_PAYMENT_PENDING]) ''srq9'' agent1)))
        ''srq9'' agent1)))) = 1 \<and>
   completedPayments ''inst1'' ''pay_rzp1''
     (store [installationRequest1] [installation1 IR_PAYMENT_PENDING]) = [] \<and>
   subscriptionsOf ''inst1'' (store [installationRequest1] [installation1 IR_PAYMENT_PENDING]) = []"
proof -
  let ?db0 = "store [installationRequest1] [installation1 IR_PAYMENT_PENDING]"
  let ?db1 = "fst (snd (refreshPaymentStatus paidGateway env1 ?db0 ''srq9'' agent1))"
  let ?db2 = "fst (snd (refreshPaymentStatus paidGateway env2 ?db1 ''srq9'' agent1))"
  have one: "length (completedPayments ''inst1'' ''pay_rzp1'' ?db1) = 1 \<and>
      length (subscriptionsOf ''inst1'' ?db1) = 1 \<and> length (payments ?db1) = 1"
    by (simp add: refresh_defs completedPayments_def subscriptionsOf_def newSubscription_def)
  have none: "completedPayments ''inst1'' ''pay_rzp1'' ?db0 = [] \<and>
      subscriptionsOf ''inst1'' ?db0 = [] \<and> payments ?db0 = []"
    by (simp add: store_def completedPayments_def subscriptionsOf_def)
  then have "?db1 \<noteq> ?db0"
    using one by auto
  with reconciliation_idempotent [of paidGateway env2 env1 ?db0 "''srq9''" agent1 agent1
      "''inst1''" "''pay_rzp1''"]
  have "?db2 = ?db1" by blast
  with one none show ?thesis by simp
qed

end
